theory Spec2Isabelle
  imports
    Complex_Main
    "HOL-Library.Word"
    "HOL-Library.Multiset"
    "HOL-Library.Signed_Division"
    "HOL-Library.Log_Nat"
begin

unbundle bit_operations_syntax

section \<open>Machine types\<close>

text \<open>
  The Feather M0 is a 32-bit ARM board: \<open>unsigned int\<close> and \<open>int\<close> are 32 bits wide,
  \<open>byte\<close> is 8 bits wide.
\<close>

type_synonym uint = "32 word"
type_synonym byte = "8 word"

section \<open>RobustSampler: mysort and s_gauge_median (SG.h)\<close>

definition SG_BUCKETS :: nat where
  "SG_BUCKETS = 60"

text \<open>
  \<open>myswap(&a[p], &a[q])\<close>: the temporary is an \<open>int\<close>, so the value of \<open>a[p]\<close> is
  converted to a signed integer and back when it is stored into \<open>a[q]\<close>.
\<close>

definition myswap :: "nat \<Rightarrow> nat \<Rightarrow> uint list \<Rightarrow> uint list" where
  "myswap p q a = (let t = sint (a ! p) in (a[p := a ! q])[q := word_of_int t])"

text \<open>
  The inner loop of \<open>mysort\<close>, \<open>for (j = 0; j < n-i-1; j++) if (a[j] > a[j+1]) myswap(...)\<close>,
  started at \<open>j\<close> with the bound \<open>n-i-1\<close> already computed.
\<close>

function mysort_inner :: "uint list \<Rightarrow> nat \<Rightarrow> nat \<Rightarrow> uint list" where
  "mysort_inner a bound j =
     (if j < bound
      then mysort_inner (if a ! j > a ! (j + 1) then myswap j (j + 1) a else a) bound (j + 1)
      else a)"
  by pat_completeness auto
termination
  by (relation "measure (\<lambda>(a, bound, j). bound - j)") auto

text \<open>The outer loop of \<open>mysort\<close>, \<open>for (i = 0; i < n-1; i++)\<close>, started at \<open>i\<close>.\<close>

function mysort_outer :: "uint list \<Rightarrow> nat \<Rightarrow> nat \<Rightarrow> uint list" where
  "mysort_outer a n i =
     (if i < n - 1
      then mysort_outer (mysort_inner a (n - i - 1) 0) n (i + 1)
      else a)"
  by pat_completeness auto
termination
  by (relation "measure (\<lambda>(a, n, i). n - 1 - i)") auto

text \<open>
  \<open>mysort(a, n)\<close>. The counters \<open>i\<close> and \<open>j\<close> are \<open>unsigned int\<close> and \<open>n\<close> is an \<open>int\<close>:
  for \<open>n = 0\<close> the bound \<open>n-1\<close> wraps to \<open>UINT_MAX\<close> and the loops run off the array, and
  for \<open>n\<close> beyond the array length they read past its end. \<open>mysort_in_bounds\<close> is the
  condition under which every access is inside the array and no counter wraps; the loops
  are modelled on natural numbers under it.
\<close>

definition mysort_in_bounds :: "uint list \<Rightarrow> nat \<Rightarrow> bool" where
  "mysort_in_bounds a n = (1 \<le> n \<and> n \<le> length a \<and> n < 2 ^ 31)"

definition mysort :: "uint list \<Rightarrow> nat \<Rightarrow> uint list" where
  "mysort a n = mysort_outer a n 0"

text \<open>
  The sampling loop of \<open>s_gauge_median\<close> stores the \<open>i\<close>-th result of
  \<open>analogRead(SGAUGE_PIN)\<close> (an \<open>int\<close>) into \<open>sg_buckets[i]\<close> (an \<open>unsigned int\<close>) for
  \<open>i = 0 .. SG_BUCKETS-1\<close>, overwriting the whole array.
\<close>

definition sg_window :: "(nat \<Rightarrow> int) \<Rightarrow> uint list" where
  "sg_window analogRead = map (\<lambda>i. word_of_int (analogRead i)) [0 ..< SG_BUCKETS]"

definition sg_median_index :: nat where
  "sg_median_index = (SG_BUCKETS + 1) div 2 - 1"

text \<open>\<open>s_gauge_median\<close> of the M0 sketch (SG.h, second definition): the raw median.\<close>

definition s_gauge_median_M0 :: "(nat \<Rightarrow> int) \<Rightarrow> uint" where
  "s_gauge_median_M0 analogRead = mysort (sg_window analogRead) SG_BUCKETS ! sg_median_index"

text \<open>
  \<open>s_gauge_median\<close> of the ULP sketch (SG.h, first definition): the median scaled by 5
  when \<open>cf_ds_type\<close> is non-zero and by 10 otherwise.
\<close>

definition s_gauge_median :: "int \<Rightarrow> (nat \<Rightarrow> int) \<Rightarrow> uint" where
  "s_gauge_median cf_ds_type analogRead =
     (let m = mysort (sg_window analogRead) SG_BUCKETS ! sg_median_index
      in if cf_ds_type \<noteq> 0 then m * 5 else m * 10)"

section \<open>Floating point values\<close>

text \<open>
  A C \<open>float\<close> is either not-a-number or a finite value, held as the real number it
  denotes. Infinities, overflow and subnormal numbers are not modelled: the values that
  occur are far from the ends of the exponent range. \<open>fround p\<close> rounds a real number to
  the nearest number with a \<open>p\<close>-bit significand, ties to even, which is what an
  assignment to a \<open>float\<close> (\<open>p = 24\<close>) or an operation on \<open>double\<close>s (\<open>p = 53\<close>) does.
\<close>

datatype cfloat = NaN | Fin real

definition ilog2 :: "real \<Rightarrow> int" where
  "ilog2 y = (if 1 \<le> y then int (floorlog 2 (nat \<lfloor>y\<rfloor>)) - 1
              else - int (floorlog 2 (nat (\<lceil>1 / y\<rceil> - 1))))"

definition pow2 :: "int \<Rightarrow> real" where
  "pow2 e = (if 0 \<le> e then 2 ^ nat e else 1 / 2 ^ nat (- e))"

definition round_even :: "real \<Rightarrow> int" where
  "round_even y =
     (let m = \<lfloor>y\<rfloor>; r = y - of_int m
      in if r < 1 / 2 then m else if 1 / 2 < r then m + 1 else if even m then m else m + 1)"

definition fround :: "nat \<Rightarrow> real \<Rightarrow> real" where
  "fround p x =
     (if x = 0 then 0
      else let e = ilog2 \<bar>x\<bar> - (int p - 1)
           in sgn x * of_int (round_even (\<bar>x\<bar> / pow2 e)) * pow2 e)"

definition f32 :: "real \<Rightarrow> real" where
  "f32 = fround 24"

definition f64 :: "real \<Rightarrow> real" where
  "f64 = fround 53"

definition isnan :: "cfloat \<Rightarrow> bool" where
  "isnan v = (case v of NaN \<Rightarrow> True | Fin x \<Rightarrow> False)"

text \<open>
  \<open>v < c\<close> and \<open>v > c\<close> for a \<open>float\<close> \<open>v\<close> and a \<open>double\<close> constant \<open>c\<close>: the \<open>float\<close> is
  promoted without loss, and every comparison with not-a-number is false.
\<close>

definition flt :: "cfloat \<Rightarrow> real \<Rightarrow> bool" where
  "flt v c = (case v of NaN \<Rightarrow> False | Fin x \<Rightarrow> x < c)"

definition fgt :: "cfloat \<Rightarrow> real \<Rightarrow> bool" where
  "fgt v c = (case v of NaN \<Rightarrow> False | Fin x \<Rightarrow> c < x)"

text \<open>\<open>v / c\<close> and \<open>v * c\<close> in single precision.\<close>

definition fdiv32 :: "cfloat \<Rightarrow> real \<Rightarrow> cfloat" where
  "fdiv32 v c = (case v of NaN \<Rightarrow> NaN | Fin x \<Rightarrow> Fin (f32 (x / c)))"

definition fmul32 :: "cfloat \<Rightarrow> real \<Rightarrow> cfloat" where
  "fmul32 v c = (case v of NaN \<Rightarrow> NaN | Fin x \<Rightarrow> Fin (f32 (x * c)))"

text \<open>
  The cast \<open>(int)v\<close> truncates towards zero. It is undefined in C for not-a-number and for
  values outside the range of \<open>int\<close>; the model gives 0 for not-a-number and does not wrap.
\<close>

definition c_int :: "cfloat \<Rightarrow> int" where
  "c_int v = (case v of NaN \<Rightarrow> 0 | Fin x \<Rightarrow> if 0 \<le> x then \<lfloor>x\<rfloor> else \<lceil>x\<rceil>)"

section \<open>Formatting as sprintf does\<close>

definition digit_char :: "nat \<Rightarrow> char" where
  "digit_char n = ''0123456789ABCDEF'' ! n"

function dec :: "nat \<Rightarrow> string" where
  "dec n = (if n < 10 then [digit_char n] else dec (n div 10) @ [digit_char (n mod 10)])"
  by pat_completeness auto
termination
  by (relation "measure (\<lambda>n. n)") auto

definition pad_left :: "char \<Rightarrow> nat \<Rightarrow> string \<Rightarrow> string" where
  "pad_left c w str = replicate (w - length str) c @ str"

text \<open>\<open>%d\<close>\<close>

definition fmt_d :: "int \<Rightarrow> string" where
  "fmt_d x = (if x < 0 then ''-'' @ dec (nat (- x)) else dec (nat x))"

text \<open>\<open>%0wd\<close>: zeros are inserted after the sign.\<close>

definition fmt_0d :: "nat \<Rightarrow> int \<Rightarrow> string" where
  "fmt_0d w x =
     (if x < 0 then ''-'' @ pad_left CHR ''0'' (w - 1) (dec (nat (- x)))
      else pad_left CHR ''0'' w (dec (nat x)))"

text \<open>\<open>%wd\<close>: blanks are inserted before the sign.\<close>

definition fmt_wd :: "nat \<Rightarrow> int \<Rightarrow> string" where
  "fmt_wd w x = pad_left CHR '' '' w (fmt_d x)"

text \<open>\<open>%u\<close> given an \<open>int\<close>: the 32 bits are read as unsigned.\<close>

definition fmt_u :: "int \<Rightarrow> string" where
  "fmt_u x = dec (nat (x mod 2 ^ 32))"

text \<open>\<open>%02X\<close> given a \<open>byte\<close>.\<close>

definition fmt_02X :: "byte \<Rightarrow> string" where
  "fmt_02X b = [digit_char (unat b div 16), digit_char (unat b mod 16)]"

text \<open>
  The pair \<open>(int)v, (int)(v*100)%100\<close> that the sketch passes for every decimal field:
  the integral part and the remainder of the hundredfold value, both truncated as C does
  (\<open>%\<close> takes the sign of the dividend).
\<close>

definition int_part :: "cfloat \<Rightarrow> int" where
  "int_part v = c_int v"

definition frac_part :: "cfloat \<Rightarrow> int" where
  "frac_part v = c_int (fmul32 v 100) smod 100"

section \<open>Constants of the sketch\<close>

definition SSB_PWRON :: uint where "SSB_PWRON = 0x1"
definition SSB_SD :: uint where "SSB_SD = 0x2"
definition SSB_RTC :: uint where "SSB_RTC = 0x4"
definition SSB_OLED :: uint where "SSB_OLED = 0x8"
definition SSB_BMX_1 :: uint where "SSB_BMX_1 = 0x80"
definition SSB_BMX_2 :: uint where "SSB_BMX_2 = 0x100"
definition SSB_MCP_1 :: uint where "SSB_MCP_1 = 0x800"
definition SSB_DS_1 :: uint where "SSB_DS_1 = 0x1000"

text \<open>The quality-control limits are \<open>double\<close> literals.\<close>

definition QC_MIN_T :: real where "QC_MIN_T = f64 (- 40)"
definition QC_MAX_T :: real where "QC_MAX_T = f64 60"
definition QC_ERR_T :: real where "QC_ERR_T = f64 (- 9999 / 10)"
definition QC_MIN_P :: real where "QC_MIN_P = f64 300"
definition QC_MAX_P :: real where "QC_MAX_P = f64 1100"
definition QC_ERR_P :: real where "QC_ERR_P = f64 (- 9999 / 10)"
definition QC_MIN_RH :: real where "QC_MIN_RH = f64 0"
definition QC_MAX_RH :: real where "QC_MAX_RH = f64 100"
definition QC_ERR_RH :: real where "QC_ERR_RH = f64 (- 9999 / 10)"

definition BMX_ADDRESS_1 :: byte where "BMX_ADDRESS_1 = 0x77"
definition BMX_ADDRESS_2 :: byte where "BMX_ADDRESS_2 = 0x76"
definition BMP280_CHIP_ID :: byte where "BMP280_CHIP_ID = 0x58"
definition BME280_BMP390_CHIP_ID :: byte where "BME280_BMP390_CHIP_ID = 0x60"
definition BMP388_CHIP_ID :: byte where "BMP388_CHIP_ID = 0x50"
definition BMX_TYPE_UNKNOWN :: byte where "BMX_TYPE_UNKNOWN = 0"
definition BMX_TYPE_BMP280 :: byte where "BMX_TYPE_BMP280 = 1"
definition BMX_TYPE_BME280 :: byte where "BMX_TYPE_BME280 = 2"
definition BMX_TYPE_BMP388 :: byte where "BMX_TYPE_BMP388 = 3"
definition BMX_TYPE_BMP390 :: byte where "BMX_TYPE_BMP390 = 4"

definition SD_obsdir :: string where "SD_obsdir = ''/OBS''"

section \<open>QualityControl: the range gate\<close>

text \<open>
  The sketch has no gate function: every gated field is written as the conditional
  expression \<open>(isnan(v) || (v < MIN) || (v > MAX)) ? ERR : v\<close> with the limits of its
  kind, and the result is stored in a \<open>float\<close>. \<open>qc_gate\<close> is that expression.
\<close>

definition qc_gate :: "real \<Rightarrow> real \<Rightarrow> real \<Rightarrow> cfloat \<Rightarrow> cfloat" where
  "qc_gate lo hi err v = (if isnan v \<or> flt v lo \<or> fgt v hi then Fin (f32 err) else v)"

text \<open>What the spec calls the envelope of a kind: \<open>v\<close> is a number and \<open>lo \<le> v \<le> hi\<close>.\<close>

definition in_envelope :: "real \<Rightarrow> real \<Rightarrow> cfloat \<Rightarrow> bool" where
  "in_envelope lo hi v = (case v of NaN \<Rightarrow> False | Fin x \<Rightarrow> lo \<le> x \<and> x \<le> hi)"

section \<open>Collaborators and global state\<close>

text \<open>The six driver objects of Sensors.h.\<close>

datatype driver = bmp1 | bmp2 | bme1 | bme2 | bm31 | bm32

record DateTime =
  dt_year :: nat
  dt_month :: nat
  dt_day :: nat
  dt_hour :: nat
  dt_minute :: nat
  dt_second :: nat

text \<open>
  What the hardware and the libraries answer during one pass of the sketch. The
  libraries (Wire, OneWire, SD, RTClib and the Adafruit drivers) are not part of the
  repository, so their answers are parameters:
  \<^item> \<open>analogRead_SGAUGE i\<close> is the \<open>i\<close>-th reading of the gauge pin, \<open>analogRead_VBAT\<close> the
    reading of the battery pin;
  \<^item> \<open>readPressure\<close>, \<open>readTemperature\<close>, \<open>readHumidity\<close>, \<open>mcp1_readTempC\<close> are the
    driver reads and \<open>drv_begin d a\<close> the result of \<open>begin\<close>/\<open>begin_I2C\<close> of driver \<open>d\<close> at
    address \<open>a\<close>;
  \<^item> \<open>i2c_ping a\<close> is the status of an address-only transmission,
    \<open>i2c_select a r\<close> the status after writing register number \<open>r\<close>,
    \<open>i2c_requestFrom a r\<close> the number of bytes then returned and \<open>i2c_read a r\<close> the byte;
  \<^item> \<open>ds_read ms i\<close> is byte \<open>i\<close> of the one-wire scratchpad read after a conversion delay
    of \<open>ms\<close> milliseconds, \<open>crc8\<close> the checksum function of the OneWire library;
  \<^item> \<open>rtc_now\<close> is the time of the clock, \<open>SD_open f\<close> whether \<open>SD.open(f, FILE_WRITE)\<close>
    yields a file.
\<close>

record env =
  analogRead_SGAUGE :: "nat \<Rightarrow> int"
  analogRead_VBAT :: int
  readPressure :: "driver \<Rightarrow> cfloat"
  readTemperature :: "driver \<Rightarrow> cfloat"
  readHumidity :: "driver \<Rightarrow> cfloat"
  mcp1_readTempC :: cfloat
  drv_begin :: "driver \<Rightarrow> byte \<Rightarrow> bool"
  i2c_ping :: "byte \<Rightarrow> byte"
  i2c_select :: "byte \<Rightarrow> byte \<Rightarrow> byte"
  i2c_requestFrom :: "byte \<Rightarrow> byte \<Rightarrow> nat"
  i2c_read :: "byte \<Rightarrow> byte \<Rightarrow> byte"
  ds_read :: "int \<Rightarrow> nat \<Rightarrow> byte"
  crc8 :: "byte list \<Rightarrow> byte"
  rtc_now :: DateTime
  SD_open :: "string \<Rightarrow> bool"

text \<open>
  The global variables of the sketch, and four logs of what it did to the outside:
  \<open>oled_out\<close> (lines handed to the display), \<open>serial_out\<close> (lines printed on the serial
  console), \<open>sd_card\<close> (lines appended to files, with the file name) and \<open>begin_calls\<close>
  (driver initialisations attempted).
\<close>

record state =
  SystemStatusBits :: uint
  JustPoweredOn :: bool
  RTC_valid :: bool
  SD_exists :: bool
  SerialConsoleEnabled :: bool
  DisplayEnabled :: bool
  cf_ds_type :: int
  BMX_1_chip_id :: byte
  BMX_2_chip_id :: byte
  BMX_1_exists :: bool
  BMX_2_exists :: bool
  BMX_1_type :: byte
  BMX_2_type :: byte
  MCP_1_exists :: bool
  ds_found :: bool
  ds_reading :: cfloat
  ds_valid :: bool
  now :: DateTime
  timestamp :: string
  msgbuf :: string
  oled_out :: "string list"
  serial_out :: "string list"
  sd_card :: "(string \<times> string) list"
  begin_calls :: "(driver \<times> byte) list"

section \<open>Output (SG.h, M0 sketch)\<close>

definition Serial_write :: "string \<Rightarrow> state \<Rightarrow> state" where
  "Serial_write str s =
     (if SerialConsoleEnabled s then s\<lparr>serial_out := serial_out s @ [str]\<rparr> else s)"

text \<open>
  \<open>OLED_write\<close> scrolls the display buffer and copies at most 22 characters of the string
  into the bottom line; the model records that line and leaves the scrolling out.
\<close>

definition OLED_write :: "string \<Rightarrow> state \<Rightarrow> state" where
  "OLED_write str s =
     (if DisplayEnabled s then s\<lparr>oled_out := oled_out s @ [take 22 str]\<rparr> else s)"

definition Output :: "string \<Rightarrow> state \<Rightarrow> state" where
  "Output str s = Serial_write str (OLED_write str s)"

text \<open>\<open>sprintf (msgbuf, ...); Output (msgbuf);\<close>\<close>

definition Output_msgbuf :: "string \<Rightarrow> state \<Rightarrow> state" where
  "Output_msgbuf str s = Output str (s\<lparr>msgbuf := str\<rparr>)"

section \<open>Clock and battery\<close>

text \<open>\<open>"%d-%02d-%02dT%02d:%02d:%02d"\<close>\<close>

definition iso_timestamp :: "DateTime \<Rightarrow> string" where
  "iso_timestamp n =
     fmt_d (int (dt_year n)) @ ''-'' @ fmt_0d 2 (int (dt_month n)) @ ''-'' @
     fmt_0d 2 (int (dt_day n)) @ ''T'' @ fmt_0d 2 (int (dt_hour n)) @ '':'' @
     fmt_0d 2 (int (dt_minute n)) @ '':'' @ fmt_0d 2 (int (dt_second n))"

definition rtc_timestamp :: "env \<Rightarrow> state \<Rightarrow> state" where
  "rtc_timestamp e s = (let n = rtc_now e in s\<lparr>now := n, timestamp := iso_timestamp n\<rparr>)"

text \<open>
  \<open>vbat_get\<close>: \<open>v = analogRead(VBATPIN); v *= 2; v *= 3.3; v /= 1024;\<close> with \<open>v\<close> a
  \<open>float\<close> and \<open>3.3\<close> a \<open>double\<close>.
\<close>

definition vbat_get :: "env \<Rightarrow> cfloat" where
  "vbat_get e =
     (let v = f32 (of_int (analogRead_VBAT e));
          v = f32 (v * 2);
          v = f32 (f64 (v * f64 (33 / 10)));
          v = f32 (v / 1024)
      in Fin v)"

section \<open>SD card (SD.h of the ULP sketch)\<close>

definition SD_logfile_name :: "DateTime \<Rightarrow> string" where
  "SD_logfile_name n =
     SD_obsdir @ ''/'' @ fmt_wd 4 (int (dt_year n)) @ fmt_0d 2 (int (dt_month n)) @
     fmt_0d 2 (int (dt_day n)) @ ''.log''"

definition SD_LogObservation :: "env \<Rightarrow> string \<Rightarrow> state \<Rightarrow> state" where
  "SD_LogObservation e observations s =
     (if \<not> SD_exists s then s
      else if \<not> RTC_valid s then s
      else
        let SD_logfile = SD_logfile_name (now s);
            s = Output SD_logfile s
        in if SD_open e SD_logfile
           then
             let s = s\<lparr>sd_card := sd_card s @ [(SD_logfile, observations)]\<rparr>;
                 s = s\<lparr>SystemStatusBits := SystemStatusBits s AND NOT SSB_SD\<rparr>
             in Output ''OBS Logged to SD'' s
           else
             let s = s\<lparr>SystemStatusBits := SystemStatusBits s OR SSB_SD\<rparr>
             in Output ''OBS Open Log Err'' s)"

section \<open>Dallas one-wire probe (DS.h)\<close>

text \<open>\<open>v != c\<close> for a \<open>float\<close> \<open>v\<close> and a \<open>double\<close> constant \<open>c\<close>.\<close>

definition fne :: "cfloat \<Rightarrow> real \<Rightarrow> bool" where
  "fne v c = (case v of NaN \<Rightarrow> True | Fin x \<Rightarrow> x \<noteq> c)"

definition ds_raw :: "byte list \<Rightarrow> uint" where
  "ds_raw data =
     (let raw = push_bit 8 (ucast (data ! 1)) OR ucast (data ! 0) :: uint;
          cfg = (data ! 4) AND 0x60
      in if cfg = 0x00 then push_bit 3 raw
         else if cfg = 0x20 then push_bit 2 raw
         else if cfg = 0x40 then push_bit 1 raw
         else raw)"

text \<open>The nine bytes read from the scratchpad, and \<open>float t = raw / 16.0\<close>.\<close>

definition ds_scratchpad :: "env \<Rightarrow> int \<Rightarrow> byte list" where
  "ds_scratchpad e delayms = map (ds_read e delayms) [0 ..< 9]"

definition ds_temp :: "byte list \<Rightarrow> cfloat" where
  "ds_temp data = Fin (f32 (f64 (real (unat (ds_raw data)) / 16)))"

definition getDSTempByAddr :: "env \<Rightarrow> int \<Rightarrow> state \<Rightarrow> state" where
  "getDSTempByAddr e delayms s =
     (let data = ds_scratchpad e delayms
      in if crc8 e (take 8 data) \<noteq> data ! 8
         then s\<lparr>ds_reading := Fin 0, ds_valid := False\<rparr>
         else
           let t = ds_temp data;
               s = s\<lparr>ds_reading := qc_gate QC_MIN_T QC_MAX_T QC_ERR_T t\<rparr>
           in if fne (ds_reading s) QC_ERR_T
              then s\<lparr>ds_valid := True\<rparr>
              else s\<lparr>ds_valid := False, ds_reading := Fin (f32 QC_ERR_P)\<rparr>)"

definition getDSTemp :: "env \<Rightarrow> state \<Rightarrow> state" where
  "getDSTemp e s =
     (let s = getDSTempByAddr e 250 s
      in if \<not> ds_valid s then getDSTempByAddr e 750 s else s)"

section \<open>SensorIdentity: get_Bosch_ChipID and bmx_initialize (Sensors.h)\<close>

text \<open>
  One probe stage of \<open>get_Bosch_ChipID\<close>: select register \<open>reg\<close> at \<open>address\<close>, ask for one
  byte and compare it with the three known codes. The result is \<open>Some id\<close> where the
  source returns \<open>id\<close> at once, and \<open>None\<close> where it falls through to the next stage.
\<close>

definition probe_stage :: "env \<Rightarrow> byte \<Rightarrow> byte \<Rightarrow> state \<Rightarrow> byte option \<times> state" where
  "probe_stage e address reg s =
     (let s = Output_msgbuf (''  I2C:'' @ fmt_02X address @ '' Reg:'' @ fmt_02X reg) s;
          error = i2c_select e address reg
      in if error \<noteq> 0
         then (None, Output_msgbuf (''  ERR_ET:'' @ fmt_d (uint error)) s)
         else if i2c_requestFrom e address reg \<noteq> 0
         then
           let chip_id = i2c_read e address reg
           in if chip_id = BMP280_CHIP_ID
              then (Some chip_id, Output_msgbuf (''  CHIPID:'' @ fmt_02X chip_id @ '' BMP280'') s)
              else if chip_id = BMP388_CHIP_ID
              then (Some chip_id, Output_msgbuf (''  CHIPID:'' @ fmt_02X chip_id @ '' BMP388'') s)
              else if chip_id = BME280_BMP390_CHIP_ID
              then (Some chip_id, Output_msgbuf (''  CHIPID:'' @ fmt_02X chip_id @ '' BME/390'') s)
              else (None, Output_msgbuf (''  CHIPID:'' @ fmt_02X chip_id @ '' InValid'') s)
         else (None, Output_msgbuf ''  ERR_RF:0'' s))"

definition get_Bosch_ChipID :: "env \<Rightarrow> byte \<Rightarrow> state \<Rightarrow> byte \<times> state" where
  "get_Bosch_ChipID e address s =
     (let s = Output ''get_Bosch_ChipID()'' s
      in case probe_stage e address 0x00 s of
           (Some chip_id, s) \<Rightarrow> (chip_id, s)
         | (None, s) \<Rightarrow>
             (case probe_stage e address 0xD0 s of
                (Some chip_id, s) \<Rightarrow> (chip_id, s)
              | (None, s) \<Rightarrow> (0, s)))"

text \<open>A call of \<open>begin\<close> or \<open>begin_I2C\<close> on a driver object: the attempt is logged.\<close>

definition call_begin :: "env \<Rightarrow> driver \<Rightarrow> byte \<Rightarrow> state \<Rightarrow> bool \<times> state" where
  "call_begin e d address s =
     (drv_begin e d address, s\<lparr>begin_calls := begin_calls s @ [(d, address)]\<rparr>)"

text \<open>The first \<open>switch\<close> of \<open>bmx_initialize\<close>, with the final \<open>Output (msgp)\<close>.\<close>

definition bmx_initialize_1 :: "env \<Rightarrow> state \<Rightarrow> state" where
  "bmx_initialize_1 e s =
     (let (chip_id, s) = get_Bosch_ChipID e BMX_ADDRESS_1 s;
          s = s\<lparr>BMX_1_chip_id := chip_id\<rparr>
      in if BMX_1_chip_id s = BMP280_CHIP_ID
         then
           let (ok, s) = call_begin e bmp1 BMX_ADDRESS_1 s
           in if \<not> ok
              then Output ''BMP1 ERR''
                     (s\<lparr>BMX_1_exists := False,
                        SystemStatusBits := SystemStatusBits s OR SSB_BMX_1\<rparr>)
              else Output ''BMP1 OK'' (s\<lparr>BMX_1_exists := True, BMX_1_type := BMX_TYPE_BMP280\<rparr>)
         else if BMX_1_chip_id s = BME280_BMP390_CHIP_ID
         then
           let (ok, s) = call_begin e bme1 BMX_ADDRESS_1 s
           in if \<not> ok
              then
                let (ok3, s) = call_begin e bm31 BMX_ADDRESS_1 s
                in if \<not> ok3
                   then Output ''BMX1 ERR''
                          (s\<lparr>BMX_1_exists := False,
                             SystemStatusBits := SystemStatusBits s OR SSB_BMX_1\<rparr>)
                   else Output ''BMP390_1 OK''
                          (s\<lparr>BMX_1_exists := True, BMX_1_type := BMX_TYPE_BMP390\<rparr>)
              else Output ''BME280_1 OK''
                     (s\<lparr>BMX_1_exists := True, BMX_1_type := BMX_TYPE_BME280\<rparr>)
         else if BMX_1_chip_id s = BMP388_CHIP_ID
         then
           let (ok, s) = call_begin e bm31 BMX_ADDRESS_1 s
           in if \<not> ok
              then Output ''BM31 ERR''
                     (s\<lparr>BMX_1_exists := False,
                        SystemStatusBits := SystemStatusBits s OR SSB_BMX_1\<rparr>)
              else Output ''BM31 OK'' (s\<lparr>BMX_1_exists := True, BMX_1_type := BMX_TYPE_BMP388\<rparr>)
         else Output ''BMX_1 NF'' s)"

text \<open>
  The second \<open>switch\<close>. As in the source, the BMP280 case calls \<open>bmp1.begin\<close> and the
  BMP390 and BMP388 cases call \<open>bm31.begin_I2C\<close>, each with the second address.
\<close>

definition bmx_initialize_2 :: "env \<Rightarrow> state \<Rightarrow> state" where
  "bmx_initialize_2 e s =
     (let (chip_id, s) = get_Bosch_ChipID e BMX_ADDRESS_2 s;
          s = s\<lparr>BMX_2_chip_id := chip_id\<rparr>
      in if BMX_2_chip_id s = BMP280_CHIP_ID
         then
           let (ok, s) = call_begin e bmp1 BMX_ADDRESS_2 s
           in if \<not> ok
              then Output ''BMP2 ERR''
                     (s\<lparr>BMX_2_exists := False,
                        SystemStatusBits := SystemStatusBits s OR SSB_BMX_2\<rparr>)
              else Output ''BMP2 OK'' (s\<lparr>BMX_2_exists := True, BMX_2_type := BMX_TYPE_BMP280\<rparr>)
         else if BMX_2_chip_id s = BME280_BMP390_CHIP_ID
         then
           let (ok, s) = call_begin e bme2 BMX_ADDRESS_2 s
           in if \<not> ok
              then
                let (ok3, s) = call_begin e bm31 BMX_ADDRESS_2 s
                in if \<not> ok3
                   then Output ''BMX2 ERR''
                          (s\<lparr>BMX_2_exists := False,
                             SystemStatusBits := SystemStatusBits s OR SSB_BMX_2\<rparr>)
                   else Output ''BMP390_2 OK''
                          (s\<lparr>BMX_2_exists := True, BMX_2_type := BMX_TYPE_BMP390\<rparr>)
              else Output ''BME280_2 OK''
                     (s\<lparr>BMX_2_exists := True, BMX_2_type := BMX_TYPE_BME280\<rparr>)
         else if BMX_2_chip_id s = BMP388_CHIP_ID
         then
           let (ok, s) = call_begin e bm31 BMX_ADDRESS_2 s
           in if \<not> ok
              then Output ''BM31 ERR''
                     (s\<lparr>BMX_2_exists := False,
                        SystemStatusBits := SystemStatusBits s OR SSB_BMX_2\<rparr>)
              else Output ''BM31 OK'' (s\<lparr>BMX_2_exists := True, BMX_2_type := BMX_TYPE_BMP388\<rparr>)
         else Output ''BMX_2 NF'' s)"

definition bmx_initialize :: "env \<Rightarrow> state \<Rightarrow> state" where
  "bmx_initialize e s = bmx_initialize_2 e (bmx_initialize_1 e (Output ''BMX:INIT'' s))"

section \<open>PresenceMonitor: I2C_Check_Sensors (Sensors.h)\<close>

definition I2C_Device_Exist :: "env \<Rightarrow> byte \<Rightarrow> bool" where
  "I2C_Device_Exist e address = (i2c_ping e address = 0)"

text \<open>
  The recovery step \<open>if (drv.begin(addr)) { exists = true; Output (msg); bits &= ~bit; }\<close>
  for the first and for the second slot.
\<close>

definition recover_1 :: "env \<Rightarrow> driver \<Rightarrow> string \<Rightarrow> state \<Rightarrow> state" where
  "recover_1 e d msg s =
     (let (ok, s) = call_begin e d BMX_ADDRESS_1 s
      in if ok
         then
           let s = Output msg (s\<lparr>BMX_1_exists := True\<rparr>)
           in s\<lparr>SystemStatusBits := SystemStatusBits s AND NOT SSB_BMX_1\<rparr>
         else s)"

definition recover_2 :: "env \<Rightarrow> driver \<Rightarrow> string \<Rightarrow> state \<Rightarrow> state" where
  "recover_2 e d msg s =
     (let (ok, s) = call_begin e d BMX_ADDRESS_2 s
      in if ok
         then
           let s = Output msg (s\<lparr>BMX_2_exists := True\<rparr>)
           in s\<lparr>SystemStatusBits := SystemStatusBits s AND NOT SSB_BMX_2\<rparr>
         else s)"

text \<open>
  The two halves of \<open>I2C_Check_Sensors\<close>. The second branch of each chain has the same
  guard as the first, as in the source.
\<close>

definition I2C_Check_BMX_1 :: "env \<Rightarrow> state \<Rightarrow> state" where
  "I2C_Check_BMX_1 e s =
     (if I2C_Device_Exist e BMX_ADDRESS_1
      then
        if BMX_1_exists s = False
        then
          if BMX_1_chip_id s = BME280_BMP390_CHIP_ID then recover_1 e bmp1 ''BMP1 ONLINE'' s
          else if BMX_1_chip_id s = BME280_BMP390_CHIP_ID then recover_1 e bme1 ''BME1 ONLINE'' s
          else recover_1 e bm31 ''BM31 ONLINE'' s
        else s
      else
        if BMX_1_exists s = True
        then
          let s = Output ''BMX1 OFFLINE'' (s\<lparr>BMX_1_exists := False\<rparr>)
          in s\<lparr>SystemStatusBits := SystemStatusBits s OR SSB_BMX_1\<rparr>
        else s)"

definition I2C_Check_BMX_2 :: "env \<Rightarrow> state \<Rightarrow> state" where
  "I2C_Check_BMX_2 e s =
     (if I2C_Device_Exist e BMX_ADDRESS_2
      then
        if BMX_2_exists s = False
        then
          if BMX_2_chip_id s = BME280_BMP390_CHIP_ID then recover_2 e bmp2 ''BMP2 ONLINE'' s
          else if BMX_2_chip_id s = BME280_BMP390_CHIP_ID then recover_2 e bme2 ''BME2 ONLINE'' s
          else recover_2 e bm32 ''BM32 ONLINE'' s
        else s
      else
        if BMX_2_exists s = True
        then
          let s = Output ''BMX2 OFFLINE'' (s\<lparr>BMX_2_exists := False\<rparr>)
          in s\<lparr>SystemStatusBits := SystemStatusBits s OR SSB_BMX_2\<rparr>
        else s)"

definition I2C_Check_Sensors :: "env \<Rightarrow> state \<Rightarrow> state" where
  "I2C_Check_Sensors e s = I2C_Check_BMX_2 e (I2C_Check_BMX_1 e s)"

section \<open>JPO_ClearBits (SG.h)\<close>

definition JPO_ClearBits :: "state \<Rightarrow> state" where
  "JPO_ClearBits s =
     (if JustPoweredOn s
      then
        let s = s\<lparr>JustPoweredOn := False\<rparr>;
            s = s\<lparr>SystemStatusBits := SystemStatusBits s AND NOT SSB_PWRON\<rparr>;
            s = s\<lparr>SystemStatusBits := SystemStatusBits s AND NOT SSB_OLED\<rparr>;
            s = s\<lparr>SystemStatusBits := SystemStatusBits s AND NOT SSB_BMX_1\<rparr>;
            s = s\<lparr>SystemStatusBits := SystemStatusBits s AND NOT SSB_BMX_2\<rparr>;
            s = s\<lparr>SystemStatusBits := SystemStatusBits s AND NOT SSB_MCP_1\<rparr>;
            s = s\<lparr>SystemStatusBits := SystemStatusBits s AND NOT SSB_DS_1\<rparr>
        in s
      else s)"

section \<open>ObservationAssembler: OBS_Do (OBS.h of the ULP sketch)\<close>

text \<open>
  The driver reads of one Bosch slot, \<open>(p, t, h)\<close> before quality control. The source
  spells the block out once per slot, with \<open>bmp1, bme1, bm31\<close> and with
  \<open>bmp2, bme2, bm32\<close>; the three locals start at \<open>0.0\<close>.
\<close>

definition bmx_read ::
  "env \<Rightarrow> driver \<Rightarrow> driver \<Rightarrow> driver \<Rightarrow> byte \<Rightarrow> byte \<Rightarrow> cfloat \<times> cfloat \<times> cfloat" where
  "bmx_read e bmp bme bm3 chip_id type =
     (let p = Fin 0; t = Fin 0; h = Fin 0
      in if chip_id = BMP280_CHIP_ID
         then (fdiv32 (readPressure e bmp) 100, readTemperature e bmp, h)
         else if chip_id = BME280_BMP390_CHIP_ID
         then
           let (p, t, h) =
                 (if type = BMX_TYPE_BME280
                  then (fdiv32 (readPressure e bme) 100, readTemperature e bme,
                        readHumidity e bme)
                  else (p, t, h))
           in if type = BMX_TYPE_BMP390
              then (fdiv32 (readPressure e bm3) 100, readTemperature e bm3, h)
              else (p, t, h)
         else (fdiv32 (readPressure e bm3) 100, readTemperature e bm3, h))"

text \<open>The three gates that follow the reads of a slot.\<close>

definition bmx_gate :: "cfloat \<times> cfloat \<times> cfloat \<Rightarrow> cfloat \<times> cfloat \<times> cfloat" where
  "bmx_gate r =
     (case r of (p, t, h) \<Rightarrow>
        (qc_gate QC_MIN_P QC_MAX_P QC_ERR_P p,
         qc_gate QC_MIN_T QC_MAX_T QC_ERR_T t,
         qc_gate QC_MIN_RH QC_MAX_RH QC_ERR_RH h))"

text \<open>
  \<open>"\"bpN\":%u.%04d,\"btN\":%d.%02d,\"bhN\":%d.%02d,"\<close> with the six arguments of the
  source, for slot \<open>N\<close>.
\<close>

definition bmx_json :: "string \<Rightarrow> cfloat \<times> cfloat \<times> cfloat \<Rightarrow> string" where
  \<open>bmx_json n r =
     (case r of (p, t, h) \<Rightarrow>
        ''"bp'' @ n @ ''":'' @ fmt_u (int_part p) @ ''.'' @ fmt_0d 4 (frac_part p) @
        '',"bt'' @ n @ ''":'' @ fmt_d (int_part t) @ ''.'' @ fmt_0d 2 (frac_part t) @
        '',"bh'' @ n @ ''":'' @ fmt_d (int_part h) @ ''.'' @ fmt_0d 2 (frac_part h) @ '','')\<close>

text \<open>\<open>"\"mt1\":%d.%04d,"\<close> and \<open>"\"dt1\":%d.%04d,"\<close>\<close>

definition temp_json :: "string \<Rightarrow> cfloat \<Rightarrow> string" where
  \<open>temp_json key v =
     ''"'' @ key @ ''":'' @ fmt_d (int_part v) @ ''.'' @ fmt_0d 4 (frac_part v) @ '',''\<close>

text \<open>\<open>"{\"at\":\"%s\",\"sg\":%d,"\<close>\<close>

definition head_json :: "string \<Rightarrow> int \<Rightarrow> string" where
  \<open>head_json ts sg = ''{"at":"'' @ ts @ ''","sg":'' @ fmt_d sg @ '',''\<close>

text \<open>\<open>"\"bv\":%d.%02d,\"hth\":%d}"\<close>\<close>

definition tail_json :: "cfloat \<Rightarrow> uint \<Rightarrow> string" where
  \<open>tail_json batt bits =
     ''"bv":'' @ fmt_d (int_part batt) @ ''.'' @ fmt_0d 2 (frac_part batt) @
     '',"hth":'' @ fmt_d (sint bits) @ ''}''\<close>

text \<open>
  The locals of \<open>OBS_Do\<close> that hold the readings: the gauge median, the gated values of
  the two Bosch slots, the gated precision temperature and the battery voltage. The
  gated locals start at \<open>0.0\<close> and keep that value when the slot is absent.
\<close>

record obs_locals =
  SG_Median :: int
  bmx1 :: "cfloat \<times> cfloat \<times> cfloat"
  bmx2 :: "cfloat \<times> cfloat \<times> cfloat"
  mcp1_temp :: cfloat
  batt :: cfloat

text \<open>The reads of \<open>OBS_Do\<close>, from \<open>s_gauge_median()\<close> to \<open>vbat_get()\<close>.\<close>

definition OBS_read :: "env \<Rightarrow> state \<Rightarrow> obs_locals" where
  "OBS_read e s =
     \<lparr>SG_Median = sint (s_gauge_median (cf_ds_type s) (analogRead_SGAUGE e)),
      bmx1 = (if BMX_1_exists s
              then bmx_gate (bmx_read e bmp1 bme1 bm31 (BMX_1_chip_id s) (BMX_1_type s))
              else (Fin 0, Fin 0, Fin 0)),
      bmx2 = (if BMX_2_exists s
              then bmx_gate (bmx_read e bmp2 bme2 bm32 (BMX_2_chip_id s) (BMX_2_type s))
              else (Fin 0, Fin 0, Fin 0)),
      mcp1_temp = (if MCP_1_exists s
                   then qc_gate QC_MIN_T QC_MAX_T QC_ERR_T (mcp1_readTempC e)
                   else Fin 0),
      batt = vbat_get e\<rparr>"

text \<open>\<open>sprintf (msgbuf+strlen(msgbuf), ...)\<close>\<close>

definition append_msgbuf :: "string \<Rightarrow> state \<Rightarrow> state" where
  "append_msgbuf str s = s\<lparr>msgbuf := msgbuf s @ str\<rparr>"

text \<open>
  The chain of \<open>sprintf\<close> calls of \<open>OBS_Do\<close> that builds the record in \<open>msgbuf\<close>; the
  one-wire probe is read in the middle of it.
\<close>

definition OBS_build :: "env \<Rightarrow> obs_locals \<Rightarrow> state \<Rightarrow> state" where
  "OBS_build e v s =
     (let s = s\<lparr>msgbuf := head_json (timestamp s) (SG_Median v)\<rparr>;
          s = (if BMX_1_exists s then append_msgbuf (bmx_json ''1'' (bmx1 v)) s else s);
          s = (if BMX_2_exists s then append_msgbuf (bmx_json ''2'' (bmx2 v)) s else s);
          s = (if MCP_1_exists s then append_msgbuf (temp_json ''mt1'' (mcp1_temp v)) s else s);
          s = (if ds_found s
               then let s = getDSTemp e s
                    in append_msgbuf (temp_json ''dt1'' (ds_reading s)) s
               else s)
      in append_msgbuf (tail_json (batt v) (SystemStatusBits s)) s)"

definition OBS_Do :: "env \<Rightarrow> bool \<Rightarrow> state \<Rightarrow> state" where
  "OBS_Do e log_obs s =
     (if \<not> RTC_valid s then Output ''OBS_Do: Time NV'' s
      else
        let s = Output ''OBS_Do()'' s;
            v = OBS_read e s;
            s = rtc_timestamp e s;
            s = (if log_obs then Output (timestamp s) s else s);
            s = OBS_build e v s;
            s = (if log_obs then SD_LogObservation e (msgbuf s) s else s)
        in Serial_write (msgbuf s) s)"

section \<open>The normal branch of loop (SSG_FAL_ULP.ino)\<close>

text \<open>
  The last \<open>else\<close> of \<open>loop\<close>, taken when the clock is valid and the sketch is not in
  calibration mode. Putting the display and the processor to sleep changes none of the
  variables above.
\<close>

definition loop_normal :: "env \<Rightarrow> state \<Rightarrow> state" where
  "loop_normal e s =
     (let s = I2C_Check_Sensors e s;
          s = OBS_Do e True s;
          s = JPO_ClearBits s;
          s = Output ''Going to Sleep'' s
      in Output ''Wakeup'' s)"

section \<open>Descriptions used in the statements\<close>

text \<open>The six bits that \<open>JPO_ClearBits\<close> turns off.\<close>

definition startup_bits :: uint where
  "startup_bits = SSB_PWRON OR SSB_OLED OR SSB_BMX_1 OR SSB_BMX_2 OR SSB_MCP_1 OR SSB_DS_1"

text \<open>The scratchpad read after \<open>delayms\<close> passes the checksum test of \<open>getDSTempByAddr\<close>.\<close>

definition ds_crc_ok :: "env \<Rightarrow> int \<Rightarrow> bool" where
  "ds_crc_ok e delayms =
     (crc8 e (take 8 (ds_scratchpad e delayms)) = ds_scratchpad e delayms ! 8)"

text \<open>
  The value \<open>getDSTemp\<close> leaves in \<open>ds_reading\<close>: the gated temperature of the first
  read, or of the retry when the first read fails the checksum, or \<open>0.0\<close> when both fail.
\<close>

definition ds_value :: "env \<Rightarrow> cfloat" where
  "ds_value e =
     (if ds_crc_ok e 250
      then qc_gate QC_MIN_T QC_MAX_T QC_ERR_T (ds_temp (ds_scratchpad e 250))
      else if ds_crc_ok e 750
      then qc_gate QC_MIN_T QC_MAX_T QC_ERR_T (ds_temp (ds_scratchpad e 750))
      else Fin 0)"

text \<open>The text \<open>OBS_build\<close> leaves in \<open>msgbuf\<close>, for given locals.\<close>

definition obs_text :: "env \<Rightarrow> obs_locals \<Rightarrow> state \<Rightarrow> string" where
  "obs_text e v s =
     head_json (timestamp s) (SG_Median v) @
     (if BMX_1_exists s then bmx_json ''1'' (bmx1 v) else []) @
     (if BMX_2_exists s then bmx_json ''2'' (bmx2 v) else []) @
     (if MCP_1_exists s then temp_json ''mt1'' (mcp1_temp v) else []) @
     (if ds_found s then temp_json ''dt1'' (ds_value e) else []) @
     tail_json (batt v) (SystemStatusBits s)"

text \<open>The record of one observation as a function of the inputs of \<open>OBS_Do\<close>.\<close>

definition obs_record :: "env \<Rightarrow> state \<Rightarrow> string" where
  "obs_record e s =
     head_json (iso_timestamp (rtc_now e))
       (sint (s_gauge_median (cf_ds_type s) (analogRead_SGAUGE e))) @
     (if BMX_1_exists s
      then bmx_json ''1'' (bmx_gate (bmx_read e bmp1 bme1 bm31 (BMX_1_chip_id s) (BMX_1_type s)))
      else []) @
     (if BMX_2_exists s
      then bmx_json ''2'' (bmx_gate (bmx_read e bmp2 bme2 bm32 (BMX_2_chip_id s) (BMX_2_type s)))
      else []) @
     (if MCP_1_exists s
      then temp_json ''mt1'' (qc_gate QC_MIN_T QC_MAX_T QC_ERR_T (mcp1_readTempC e))
      else []) @
     (if ds_found s then temp_json ''dt1'' (ds_value e) else []) @
     tail_json (vbat_get e) (SystemStatusBits s)"

text \<open>
  The globals after the record has been assembled, before anything is printed or
  logged: the clock has been read, the one-wire probe has been read if there is one, and
  \<open>msgbuf\<close> holds the record.
\<close>

definition obs_assembled :: "env \<Rightarrow> state \<Rightarrow> state" where
  "obs_assembled e s =
     s\<lparr>now := rtc_now e, timestamp := iso_timestamp (rtc_now e),
       ds_reading := (if ds_found s then ds_value e else ds_reading s),
       ds_valid := (if ds_found s then ds_crc_ok e 250 \<or> ds_crc_ok e 750 else ds_valid s),
       msgbuf := obs_record e s\<rparr>"

text \<open>The driver initialisations that a step added to the log.\<close>

definition new_calls :: "state \<Rightarrow> state \<Rightarrow> (driver \<times> byte) list" where
  "new_calls s s' = drop (length (begin_calls s)) (begin_calls s')"

section \<open>Example inputs\<close>

text \<open>
  \<open>OneWire::crc8\<close> of the OneWire library (the Dallas CRC-8, computed bit by bit), as the
  checksum of the example environments.
\<close>

fun crc8_bits :: "nat \<Rightarrow> byte \<Rightarrow> byte \<Rightarrow> byte" where
  "crc8_bits 0 crc inbyte = crc"
| "crc8_bits (Suc i) crc inbyte =
     (let mix = (crc XOR inbyte) AND 0x01;
          crc = drop_bit 1 crc;
          crc = (if mix \<noteq> 0 then crc XOR 0x8C else crc)
      in crc8_bits i crc (drop_bit 1 inbyte))"

definition dallas_crc8 :: "byte list \<Rightarrow> byte" where
  "dallas_crc8 bs = foldl (\<lambda>crc b. crc8_bits 8 crc b) 0 bs"

text \<open>
  A bench set-up: every gauge sample is 512, the battery pin reads 575 (3.706 V), a
  BME280 at the first address reports 101325 Pa, 22.5 degrees and 45 percent, nothing
  answers at the second address, the one-wire bus floats high (every byte is \<open>0xFF\<close>),
  and the SD card opens files.
\<close>

definition bench_env :: env where
  "bench_env =
     \<lparr>analogRead_SGAUGE = (\<lambda>i. 512),
      analogRead_VBAT = 575,
      readPressure = (\<lambda>d. if d = bme1 then Fin 101325 else NaN),
      readTemperature = (\<lambda>d. if d = bme1 then Fin (45 / 2) else NaN),
      readHumidity = (\<lambda>d. if d = bme1 then Fin 45 else NaN),
      mcp1_readTempC = NaN,
      drv_begin = (\<lambda>d a. d = bme1 \<and> a = BMX_ADDRESS_1),
      i2c_ping = (\<lambda>a. if a = BMX_ADDRESS_1 then 0 else 2),
      i2c_select = (\<lambda>a r. if a = BMX_ADDRESS_1 then 0 else 2),
      i2c_requestFrom = (\<lambda>a r. if a = BMX_ADDRESS_1 then 1 else 0),
      i2c_read = (\<lambda>a r. if a = BMX_ADDRESS_1 \<and> r = 0xD0 then 0x60 else 0),
      ds_read = (\<lambda>ms i. 0xFF),
      crc8 = dallas_crc8,
      rtc_now = \<lparr>dt_year = 2024, dt_month = 7, dt_day = 19,
                 dt_hour = 12, dt_minute = 0, dt_second = 5\<rparr>,
      SD_open = (\<lambda>f. True)\<rparr>"

text \<open>
  The globals as the sketch initialises them at power-on: only the power-on bit is set,
  the clock is not yet known to be valid, nothing has been found.
\<close>

definition boot_state :: state where
  "boot_state =
     \<lparr>SystemStatusBits = SSB_PWRON, JustPoweredOn = True, RTC_valid = False,
      SD_exists = False, SerialConsoleEnabled = False, DisplayEnabled = True,
      cf_ds_type = 0, BMX_1_chip_id = 0x00, BMX_2_chip_id = 0x00,
      BMX_1_exists = False, BMX_2_exists = False,
      BMX_1_type = BMX_TYPE_UNKNOWN, BMX_2_type = BMX_TYPE_UNKNOWN,
      MCP_1_exists = False, ds_found = False, ds_reading = Fin 0, ds_valid = False,
      now = \<lparr>dt_year = 0, dt_month = 0, dt_day = 0,
             dt_hour = 0, dt_minute = 0, dt_second = 0\<rparr>,
      timestamp = [], msgbuf = [], oled_out = [], serial_out = [], sd_card = [],
      begin_calls = []\<rparr>"

text \<open>
  The globals in normal operation on the bench: clock valid, SD card and serial console
  present, a BME280 identified in the first slot, no other sensor, status bits 0.
\<close>

definition bench_state :: state where
  "bench_state =
     boot_state
       \<lparr>SystemStatusBits := 0, JustPoweredOn := False, RTC_valid := True,
        SD_exists := True, SerialConsoleEnabled := True,
        BMX_1_chip_id := BME280_BMP390_CHIP_ID, BMX_1_exists := True,
        BMX_1_type := BMX_TYPE_BME280\<rparr>"

text \<open>
  A boot with a BMP280 at the first address (identity byte \<open>0x58\<close> at register \<open>0x00\<close>)
  and a BMP390 at the second (identity byte \<open>0x60\<close>, the BME280 driver fails on it).
\<close>

definition boot_env :: env where
  "boot_env =
     bench_env
       \<lparr>drv_begin := (\<lambda>d a. (d = bmp1 \<and> a = BMX_ADDRESS_1) \<or> (d = bm31 \<and> a = BMX_ADDRESS_2)),
        i2c_ping := (\<lambda>a. 0),
        i2c_select := (\<lambda>a r. 0),
        i2c_requestFrom := (\<lambda>a r. 1),
        i2c_read := (\<lambda>a r. if a = BMX_ADDRESS_1 then 0x58 else 0x60)\<rparr>"

text \<open>
  A boot at which identity byte \<open>0x60\<close> is read at the first address and \<open>0x58\<close> at the
  second, and no driver initialisation succeeds.
\<close>

definition dead_boot_env :: env where
  "dead_boot_env =
     boot_env
       \<lparr>drv_begin := (\<lambda>d a. False),
        i2c_read := (\<lambda>a r. if a = BMX_ADDRESS_1 then 0x60 else 0x58)\<rparr>"

text \<open>
  The bench with the BME280 of the first slot marked offline, and a variant of the bench
  in which the only driver whose \<open>begin\<close> succeeds at the first address is \<open>bmp1\<close>.
\<close>

definition offline_bme_state :: state where
  "offline_bme_state = bench_state\<lparr>BMX_1_exists := False, SystemStatusBits := SSB_BMX_1\<rparr>"

definition bmp_driver_env :: env where
  "bmp_driver_env = bench_env\<lparr>drv_begin := (\<lambda>d a. d = bmp1 \<and> a = BMX_ADDRESS_1)\<rparr>"

text \<open>
  The bench just after power-on with no SD card (the card was missing at boot, so its
  fault bit is set next to the power-on bit), and the bench with a card on which no file
  can be opened.
\<close>

definition nosd_state :: state where
  "nosd_state =
     bench_state\<lparr>JustPoweredOn := True, SD_exists := False,
       SystemStatusBits := SSB_PWRON OR SSB_SD\<rparr>"

definition sd_fail_env :: env where
  "sd_fail_env = bench_env\<lparr>SD_open := (\<lambda>f. False)\<rparr>"

text \<open>The bench with a one-wire probe found at start-up.\<close>

definition probe_state :: state where
  "probe_state = bench_state\<lparr>ds_found := True\<rparr>"

text \<open>
  The bench with a probe that answers: a scratchpad for 25.0625 degrees at 12 bits
  (\<open>0x0191\<close>), with its checksum \<open>0x25\<close>.
\<close>

definition probe_env :: env where
  "probe_env =
     bench_env\<lparr>ds_read := (\<lambda>ms i. [0x91, 0x01, 0x4B, 0x46, 0x7F, 0xFF, 0x0F, 0x10, 0x25] ! i)\<rparr>"

text \<open>
  The invariant of the outer loop: after \<open>i\<close> passes the last \<open>i\<close> of the first \<open>n\<close>
  positions are in ascending order and dominate the positions before them.
\<close>

definition mysort_inv :: "uint list \<Rightarrow> nat \<Rightarrow> nat \<Rightarrow> bool" where
  "mysort_inv a n i =
     ((\<forall>p q. n - i \<le> p \<and> p \<le> q \<and> q < n \<longrightarrow> a ! p \<le> a ! q) \<and>
      (\<forall>p q. p < n - i \<and> n - i \<le> q \<and> q < n \<longrightarrow> a ! p \<le> a ! q))"

section \<open>Properties of mysort\<close>

lemma myswap_eq: "myswap p q a = (a[p := a ! q])[q := a ! p]"
  by (simp add: myswap_def)

lemma length_myswap [simp]: "length (myswap p q a) = length a"
  by (simp add: myswap_eq)

lemma mset_myswap:
  assumes "p < length a" "q < length a"
  shows "mset (myswap p q a) = mset a"
  using mset_swap [OF assms(2) assms(1)] by (simp add: myswap_eq)

declare mysort_inner.simps [simp del]
declare mysort_outer.simps [simp del]

lemma length_mysort_inner [simp]: "length (mysort_inner a b j) = length a"
proof (induction a b j rule: mysort_inner.induct)
  case (1 a bound j)
  show ?case
  proof (cases "j < bound")
    case True
    with "1" show ?thesis by (subst mysort_inner.simps) simp
  next
    case False
    then show ?thesis by (subst mysort_inner.simps) simp
  qed
qed

lemma mset_mysort_inner: "b < length a \<Longrightarrow> mset (mysort_inner a b j) = mset a"
proof (induction a b j rule: mysort_inner.induct)
  case (1 a bound j)
  show ?case
  proof (cases "j < bound")
    case True
    let ?a' = "if a ! j > a ! (j + 1) then myswap j (j + 1) a else a"
    have len: "length ?a' = length a" by simp
    have ms: "mset ?a' = mset a"
      using True "1.prems" by (simp add: mset_myswap)
    have "mset (mysort_inner ?a' bound (j + 1)) = mset ?a'"
      using "1.IH" [OF True] "1.prems" len by simp
    with ms True show ?thesis by (subst mysort_inner.simps) simp
  next
    case False
    then show ?thesis by (subst mysort_inner.simps) simp
  qed
qed

text \<open>Positions outside the range still to be visited are left alone.\<close>

lemma mysort_inner_outside:
  "k < j \<or> b < k \<Longrightarrow> mysort_inner a b j ! k = a ! k"
proof (induction a b j rule: mysort_inner.induct)
  case (1 a bound j)
  show ?case
  proof (cases "j < bound")
    case True
    let ?a' = "if a ! j > a ! (j + 1) then myswap j (j + 1) a else a"
    have k: "k \<noteq> j" "k \<noteq> j + 1" using "1.prems" True by auto
    have same: "?a' ! k = a ! k" using k by (simp add: myswap_eq)
    have "mysort_inner ?a' bound (j + 1) ! k = ?a' ! k"
      using "1.IH" [OF True] "1.prems" by auto
    with same True show ?thesis by (subst mysort_inner.simps) simp
  next
    case False
    then show ?thesis by (subst mysort_inner.simps) simp
  qed
qed

text \<open>An upper bound of the visited prefix stays an upper bound of it.\<close>

lemma mysort_inner_upper:
  "b < length a \<Longrightarrow> \<forall>k\<le>b. a ! k \<le> y \<Longrightarrow> k \<le> b \<Longrightarrow> mysort_inner a b j ! k \<le> y"
proof (induction a b j arbitrary: k rule: mysort_inner.induct)
  case (1 a bound j)
  show ?case
  proof (cases "j < bound")
    case True
    let ?a' = "if a ! j > a ! (j + 1) then myswap j (j + 1) a else a"
    have len: "bound < length ?a'" using "1.prems" by simp
    have up: "\<forall>k\<le>bound. ?a' ! k \<le> y"
      using "1.prems" True by (auto simp: myswap_eq nth_list_update)
    have "mysort_inner ?a' bound (j + 1) ! k \<le> y"
      using "1.IH" [OF True len up "1.prems"(3)] .
    with True show ?thesis by (subst mysort_inner.simps) simp
  next
    case False
    with "1.prems" show ?thesis by (subst mysort_inner.simps) simp
  qed
qed

text \<open>One pass carries the largest element of the prefix to position \<open>b\<close>.\<close>

lemma mysort_inner_max:
  "b < length a \<Longrightarrow> j \<le> b \<Longrightarrow> \<forall>k\<le>j. a ! k \<le> a ! j \<Longrightarrow> k \<le> b \<Longrightarrow>
   mysort_inner a b j ! k \<le> mysort_inner a b j ! b"
proof (induction a b j arbitrary: k rule: mysort_inner.induct)
  case (1 a bound j)
  show ?case
  proof (cases "j < bound")
    case True
    let ?a' = "if a ! j > a ! (j + 1) then myswap j (j + 1) a else a"
    have len: "bound < length ?a'" using "1.prems" by simp
    have j1: "j + 1 \<le> bound" using True by simp
    have jl: "j < length a" "j + 1 < length a" using True "1.prems"(1) by auto
    have mx: "\<forall>k\<le>j + 1. ?a' ! k \<le> ?a' ! (j + 1)"
    proof (intro allI impI)
      fix k assume kk: "k \<le> j + 1"
      show "?a' ! k \<le> ?a' ! (j + 1)"
      proof (cases "a ! j > a ! (j + 1)")
        case sw: True
        have top: "myswap j (j + 1) a ! (j + 1) = a ! j"
          using jl by (simp add: myswap_eq)
        have "myswap j (j + 1) a ! k \<le> a ! j"
        proof (cases "k = j + 1")
          case True
          then show ?thesis using top by simp
        next
          case False
          then have kj: "k \<le> j" using kk by simp
          show ?thesis
          proof (cases "k = j")
            case True
            then show ?thesis using jl sw by (simp add: myswap_eq)
          next
            case False
            then show ?thesis using kj "1.prems"(3) jl by (simp add: myswap_eq)
          qed
        qed
        with sw top show ?thesis by simp
      next
        case ns: False
        then have le: "a ! j \<le> a ! (j + 1)" by simp
        have "a ! k \<le> a ! (j + 1)"
        proof (cases "k = j + 1")
          case True
          then show ?thesis by simp
        next
          case False
          then have "k \<le> j" using kk by simp
          then have "a ! k \<le> a ! j" using "1.prems"(3) by simp
          with le show ?thesis by simp
        qed
        with ns show ?thesis by simp
      qed
    qed
    have "mysort_inner ?a' bound (j + 1) ! k \<le> mysort_inner ?a' bound (j + 1) ! bound"
      using "1.IH" [OF True len j1 mx "1.prems"(4)] .
    with True show ?thesis by (subst (1 2) mysort_inner.simps) simp
  next
    case False
    then have "j = bound" using "1.prems"(2) by simp
    with "1.prems" False show ?thesis by (subst (1 2) mysort_inner.simps) simp
  qed
qed

lemma length_mysort_outer [simp]: "length (mysort_outer a n i) = length a"
proof (induction a n i rule: mysort_outer.induct)
  case (1 a n i)
  show ?case
  proof (cases "i < n - 1")
    case True
    with "1" show ?thesis by (subst mysort_outer.simps) simp
  next
    case False
    then show ?thesis by (subst mysort_outer.simps) simp
  qed
qed

lemma mset_mysort_outer: "n \<le> length a \<Longrightarrow> mset (mysort_outer a n i) = mset a"
proof (induction a n i rule: mysort_outer.induct)
  case (1 a n i)
  show ?case
  proof (cases "i < n - 1")
    case True
    then have b: "n - i - 1 < length a" using "1.prems" by simp
    have "mset (mysort_outer (mysort_inner a (n - i - 1) 0) n (i + 1))
            = mset (mysort_inner a (n - i - 1) 0)"
      using "1.IH" [OF True] "1.prems" by simp
    also have "\<dots> = mset a" using b by (rule mset_mysort_inner)
    finally show ?thesis using True by (subst mysort_outer.simps) simp
  next
    case False
    then show ?thesis by (subst mysort_outer.simps) simp
  qed
qed

lemma mysort_inv_step:
  assumes n: "n \<le> length a" and i: "i < n - 1" and inv: "mysort_inv a n i"
  shows "mysort_inv (mysort_inner a (n - i - 1) 0) n (i + 1)"
proof -
  let ?b = "n - i - 1"
  let ?r = "mysort_inner a ?b 0"
  have b: "?b < length a" using n i by simp
  have nb: "n - (i + 1) = ?b" by simp
  have ni: "n - i = ?b + 1" using i by simp
  have tail: "?r ! q = a ! q" if "?b < q" for q
    using that by (simp add: mysort_inner_outside)
  have below: "?r ! p \<le> a ! q" if "p \<le> ?b" "?b < q" "q < n" for p q
  proof -
    have "\<forall>k\<le>?b. a ! k \<le> a ! q"
      using inv that ni by (simp add: mysort_inv_def)
    from mysort_inner_upper [OF b this that(1)] show ?thesis .
  qed
  have top: "?r ! p \<le> ?r ! ?b" if "p \<le> ?b" for p
    using mysort_inner_max [OF b _ _ that, of 0] by simp
  have one: "?r ! p \<le> ?r ! q" if "?b \<le> p" "p \<le> q" "q < n" for p q
  proof (cases "p = ?b")
    case True
    show ?thesis
    proof (cases "q = ?b")
      case True
      with \<open>p = ?b\<close> show ?thesis by simp
    next
      case False
      then have "?b < q" using that True by simp
      with below [of p q] tail [of q] that True show ?thesis by simp
    qed
  next
    case False
    then have "?b < p" "?b < q" using that by auto
    moreover have "a ! p \<le> a ! q"
      using inv that ni \<open>?b < p\<close> by (simp add: mysort_inv_def)
    ultimately show ?thesis using tail [of p] tail [of q] by simp
  qed
  have two: "?r ! p \<le> ?r ! q" if "p < ?b" "?b \<le> q" "q < n" for p q
  proof (cases "q = ?b")
    case True
    with top [of p] that show ?thesis by simp
  next
    case False
    then have "?b < q" using that by simp
    with below [of p q] tail [of q] that show ?thesis by simp
  qed
  show ?thesis
    unfolding mysort_inv_def nb using one two by blast
qed

lemma mysort_outer_sorted:
  "n \<le> length a \<Longrightarrow> 1 \<le> n \<Longrightarrow> i \<le> n - 1 \<Longrightarrow> mysort_inv a n i \<Longrightarrow>
   p \<le> q \<Longrightarrow> q < n \<Longrightarrow> mysort_outer a n i ! p \<le> mysort_outer a n i ! q"
proof (induction a n i rule: mysort_outer.induct)
  case (1 a n i)
  show ?case
  proof (cases "i < n - 1")
    case True
    let ?r = "mysort_inner a (n - i - 1) 0"
    have inv': "mysort_inv ?r n (i + 1)"
      using "1.prems"(1) True "1.prems"(4) by (rule mysort_inv_step)
    have len: "n \<le> length ?r" using "1.prems"(1) by simp
    have i1: "i + 1 \<le> n - 1" using True by simp
    have "mysort_outer ?r n (i + 1) ! p \<le> mysort_outer ?r n (i + 1) ! q"
      using "1.IH" [OF True len "1.prems"(2) i1 inv' "1.prems"(5) "1.prems"(6)] .
    with True show ?thesis by (subst (1 2) mysort_outer.simps) simp
  next
    case False
    then have ni: "n - i = 1" using "1.prems" by simp
    have "a ! p \<le> a ! q"
    proof (cases "p = 0")
      case True
      show ?thesis
      proof (cases "q = 0")
        case True
        with \<open>p = 0\<close> show ?thesis by simp
      next
        case False
        with True "1.prems"(4) "1.prems"(6) ni show ?thesis
          by (simp add: mysort_inv_def)
      qed
    next
      case False
      with "1.prems"(4) "1.prems"(5) "1.prems"(6) ni show ?thesis
        by (simp add: mysort_inv_def)
    qed
    with False show ?thesis by (subst (1 2) mysort_outer.simps) simp
  qed
qed

lemma mysort_inv_0: "mysort_inv a n 0"
  by (auto simp: mysort_inv_def)

lemma length_mysort [simp]: "length (mysort a n) = length a"
  by (simp add: mysort_def)

lemma mset_mysort: "mysort_in_bounds a n \<Longrightarrow> mset (mysort a n) = mset a"
  by (simp add: mysort_def mysort_in_bounds_def mset_mysort_outer)

lemma mysort_nth_mono:
  "mysort_in_bounds a n \<Longrightarrow> p \<le> q \<Longrightarrow> q < n \<Longrightarrow> mysort a n ! p \<le> mysort a n ! q"
  unfolding mysort_def mysort_in_bounds_def
  using mysort_outer_sorted [of n a 0 p q] mysort_inv_0 [of a n] by simp

lemma sorted_mysort: "mysort_in_bounds a (length a) \<Longrightarrow> sorted (mysort a (length a))"
  by (simp add: sorted_iff_nth_mono mysort_nth_mono)

lemma mysort_eq_sort: "mysort_in_bounds a (length a) \<Longrightarrow> mysort a (length a) = sort a"
  by (rule properties_for_sort [symmetric]) (simp_all add: mset_mysort sorted_mysort)

lemma length_sg_window [simp]: "length (sg_window rd) = 60"
  by (simp add: sg_window_def SG_BUCKETS_def)

lemma sg_window_in_bounds: "mysort_in_bounds (sg_window rd) SG_BUCKETS"
  by (simp add: mysort_in_bounds_def SG_BUCKETS_def)

lemma mysort_sg_window: "mysort (sg_window rd) SG_BUCKETS = sort (sg_window rd)"
  using mysort_eq_sort [of "sg_window rd"] sg_window_in_bounds [of rd]
  by (simp add: SG_BUCKETS_def)

text \<open>
  C1. The window of \<open>s_gauge_median\<close> (M0 sketch) is the 60 readings of the gauge pin in
  the order they were taken. The function sorts it ascending with \<open>mysort\<close> and returns
  the element at the 0-based index \<open>(60+1)/2 - 1 = 29\<close> of the sorted window. That element
  is one of the 60 readings, and it is the lower of the two middle elements (positions 29
  and 30), not their average.
\<close>

theorem s_gauge_median_M0_is_lower_median:
  "sg_window rd = map (\<lambda>i. word_of_int (rd i)) [0 ..< 60] \<and>
   sg_median_index = 29 \<and>
   sorted (mysort (sg_window rd) SG_BUCKETS) \<and>
   mset (mysort (sg_window rd) SG_BUCKETS) = mset (sg_window rd) \<and>
   s_gauge_median_M0 rd = mysort (sg_window rd) SG_BUCKETS ! 29 \<and>
   s_gauge_median_M0 rd = sort (map (\<lambda>i. word_of_int (rd i)) [0 ..< 60]) ! 29 \<and>
   s_gauge_median_M0 rd = sort (sg_window rd) ! 29 \<and>
   s_gauge_median_M0 rd \<in># mset (sg_window rd) \<and>
   (\<exists>i<60. s_gauge_median_M0 rd = word_of_int (rd i)) \<and>
   s_gauge_median_M0 rd \<le> sort (sg_window rd) ! 30"
proof -
  have win: "sg_window rd = map (\<lambda>i. word_of_int (rd i)) [0 ..< 60]"
    by (simp add: sg_window_def SG_BUCKETS_def)
  have idx: "sg_median_index = 29"
    by (simp add: sg_median_index_def SG_BUCKETS_def)
  have srt: "mysort (sg_window rd) SG_BUCKETS = sort (sg_window rd)"
    by (rule mysort_sg_window)
  have med: "s_gauge_median_M0 rd = sort (sg_window rd) ! 29"
    by (simp add: s_gauge_median_M0_def srt idx)
  have "sort (sg_window rd) ! 29 \<in> set (sort (sg_window rd))"
    by (rule nth_mem) simp
  then have mem: "s_gauge_median_M0 rd \<in> set (sg_window rd)"
    by (simp add: med)
  then have "s_gauge_median_M0 rd \<in> (\<lambda>i. word_of_int (rd i)) ` {0 ..< 60}"
    by (simp add: win)
  then have one: "\<exists>i<60. s_gauge_median_M0 rd = word_of_int (rd i)"
    by auto
  have le: "sort (sg_window rd) ! 29 \<le> sort (sg_window rd) ! 30"
    by (rule sorted_nth_mono) simp_all
  have a: "sorted (mysort (sg_window rd) SG_BUCKETS)"
    and b: "mset (mysort (sg_window rd) SG_BUCKETS) = mset (sg_window rd)"
    and c: "s_gauge_median_M0 rd = mysort (sg_window rd) SG_BUCKETS ! 29"
    by (simp_all add: srt med)
  have d: "s_gauge_median_M0 rd = sort (map (\<lambda>i. word_of_int (rd i)) [0 ..< 60]) ! 29"
    using med by (simp only: win)
  have e: "s_gauge_median_M0 rd \<le> sort (sg_window rd) ! 30"
    using le by (simp only: med)
  have f: "s_gauge_median_M0 rd \<in># mset (sg_window rd)"
    using mem by simp
  from win idx a b c d med f one e show ?thesis
    by (intro conjI)
qed

section \<open>The range gate\<close>

lemma qc_gate_cases:
  "qc_gate lo hi err v = (if in_envelope lo hi v then v else Fin (f32 err))"
  by (cases v) (auto simp: qc_gate_def in_envelope_def isnan_def flt_def fgt_def)

lemma f32_QC_ERR_T: "f32 QC_ERR_T = - 8191181 / 8192"
  by code_simp

lemma QC_ERR_T_val: "QC_ERR_T = - 8795213412905779 / 8796093022208"
  by code_simp

lemma QC_MIN_T_val: "QC_MIN_T = - 40"
  by code_simp

lemma QC_MAX_T_val: "QC_MAX_T = 60"
  by code_simp

text \<open>
  C2, as the code has it. The gate returns \<open>v\<close> when \<open>v\<close> is a number with
  \<open>min \<le> v \<le> max\<close> (the bounds included) and the sentinel of the kind, rounded to
  \<open>float\<close>, in every other case, not-a-number included. Hence the result equals \<open>v\<close>
  exactly when \<open>v\<close> is inside the envelope or \<open>v\<close> is the sentinel itself.
\<close>

theorem qc_gate_returns:
  "qc_gate lo hi err v = (if in_envelope lo hi v then v else Fin (f32 err)) \<and>
   (qc_gate lo hi err v = v) = (in_envelope lo hi v \<or> v = Fin (f32 err)) \<and>
   in_envelope lo hi (Fin x) = (lo \<le> x \<and> x \<le> hi) \<and>
   in_envelope lo hi NaN = False"
  by (auto simp: qc_gate_cases in_envelope_def)

text \<open>
  C2 as stated fails at one input per kind: the \<open>float\<close> nearest to \<open>-999.9\<close> lies
  outside the temperature envelope, and the gate returns that very value.
\<close>

theorem qc_gate_sentinel_counterexample:
  "qc_gate QC_MIN_T QC_MAX_T QC_ERR_T (Fin (- 8191181 / 8192)) = Fin (- 8191181 / 8192) \<and>
   \<not> in_envelope QC_MIN_T QC_MAX_T (Fin (- 8191181 / 8192)) \<and>
   f32 QC_ERR_T = - 8191181 / 8192"
  by (simp add: qc_gate_cases in_envelope_def f32_QC_ERR_T QC_MIN_T_val)

section \<open>What the output functions leave alone\<close>

lemma Serial_write_fields [simp]:
  "SystemStatusBits (Serial_write str s) = SystemStatusBits s"
  "JustPoweredOn (Serial_write str s) = JustPoweredOn s"
  "RTC_valid (Serial_write str s) = RTC_valid s"
  "SD_exists (Serial_write str s) = SD_exists s"
  "SerialConsoleEnabled (Serial_write str s) = SerialConsoleEnabled s"
  "DisplayEnabled (Serial_write str s) = DisplayEnabled s"
  "cf_ds_type (Serial_write str s) = cf_ds_type s"
  "BMX_1_chip_id (Serial_write str s) = BMX_1_chip_id s"
  "BMX_2_chip_id (Serial_write str s) = BMX_2_chip_id s"
  "BMX_1_exists (Serial_write str s) = BMX_1_exists s"
  "BMX_2_exists (Serial_write str s) = BMX_2_exists s"
  "BMX_1_type (Serial_write str s) = BMX_1_type s"
  "BMX_2_type (Serial_write str s) = BMX_2_type s"
  "MCP_1_exists (Serial_write str s) = MCP_1_exists s"
  "ds_found (Serial_write str s) = ds_found s"
  "ds_reading (Serial_write str s) = ds_reading s"
  "ds_valid (Serial_write str s) = ds_valid s"
  "now (Serial_write str s) = now s"
  "timestamp (Serial_write str s) = timestamp s"
  "msgbuf (Serial_write str s) = msgbuf s"
  "oled_out (Serial_write str s) = oled_out s"
  "sd_card (Serial_write str s) = sd_card s"
  "begin_calls (Serial_write str s) = begin_calls s"
  by (simp_all add: Serial_write_def)

lemma Output_fields [simp]:
  "SystemStatusBits (Output str s) = SystemStatusBits s"
  "JustPoweredOn (Output str s) = JustPoweredOn s"
  "RTC_valid (Output str s) = RTC_valid s"
  "SD_exists (Output str s) = SD_exists s"
  "SerialConsoleEnabled (Output str s) = SerialConsoleEnabled s"
  "DisplayEnabled (Output str s) = DisplayEnabled s"
  "cf_ds_type (Output str s) = cf_ds_type s"
  "BMX_1_chip_id (Output str s) = BMX_1_chip_id s"
  "BMX_2_chip_id (Output str s) = BMX_2_chip_id s"
  "BMX_1_exists (Output str s) = BMX_1_exists s"
  "BMX_2_exists (Output str s) = BMX_2_exists s"
  "BMX_1_type (Output str s) = BMX_1_type s"
  "BMX_2_type (Output str s) = BMX_2_type s"
  "MCP_1_exists (Output str s) = MCP_1_exists s"
  "ds_found (Output str s) = ds_found s"
  "ds_reading (Output str s) = ds_reading s"
  "ds_valid (Output str s) = ds_valid s"
  "now (Output str s) = now s"
  "timestamp (Output str s) = timestamp s"
  "msgbuf (Output str s) = msgbuf s"
  "sd_card (Output str s) = sd_card s"
  "begin_calls (Output str s) = begin_calls s"
  by (simp_all add: Output_def Serial_write_def OLED_write_def)

lemma Serial_write_log:
  "serial_out (Serial_write str s) =
     (if SerialConsoleEnabled s then serial_out s @ [str] else serial_out s)"
  by (simp add: Serial_write_def)

lemma Output_logs:
  "oled_out (Output str s) =
     (if DisplayEnabled s then oled_out s @ [take 22 str] else oled_out s)"
  "serial_out (Output str s) =
     (if SerialConsoleEnabled s then serial_out s @ [str] else serial_out s)"
  by (simp_all add: Output_def Serial_write_def OLED_write_def)

lemma SD_LogObservation_fields [simp]:
  "JustPoweredOn (SD_LogObservation e obs s) = JustPoweredOn s"
  "RTC_valid (SD_LogObservation e obs s) = RTC_valid s"
  "SD_exists (SD_LogObservation e obs s) = SD_exists s"
  "SerialConsoleEnabled (SD_LogObservation e obs s) = SerialConsoleEnabled s"
  "DisplayEnabled (SD_LogObservation e obs s) = DisplayEnabled s"
  "cf_ds_type (SD_LogObservation e obs s) = cf_ds_type s"
  "BMX_1_chip_id (SD_LogObservation e obs s) = BMX_1_chip_id s"
  "BMX_2_chip_id (SD_LogObservation e obs s) = BMX_2_chip_id s"
  "BMX_1_exists (SD_LogObservation e obs s) = BMX_1_exists s"
  "BMX_2_exists (SD_LogObservation e obs s) = BMX_2_exists s"
  "BMX_1_type (SD_LogObservation e obs s) = BMX_1_type s"
  "BMX_2_type (SD_LogObservation e obs s) = BMX_2_type s"
  "MCP_1_exists (SD_LogObservation e obs s) = MCP_1_exists s"
  "ds_found (SD_LogObservation e obs s) = ds_found s"
  "ds_reading (SD_LogObservation e obs s) = ds_reading s"
  "ds_valid (SD_LogObservation e obs s) = ds_valid s"
  "now (SD_LogObservation e obs s) = now s"
  "timestamp (SD_LogObservation e obs s) = timestamp s"
  "msgbuf (SD_LogObservation e obs s) = msgbuf s"
  "begin_calls (SD_LogObservation e obs s) = begin_calls s"
  by (simp_all add: SD_LogObservation_def Let_def)

lemma SD_LogObservation_bits:
  "SystemStatusBits (SD_LogObservation e obs s) =
     (if SD_exists s \<and> RTC_valid s
      then if SD_open e (SD_logfile_name (now s))
           then SystemStatusBits s AND NOT SSB_SD else SystemStatusBits s OR SSB_SD
      else SystemStatusBits s)"
  by (simp add: SD_LogObservation_def Let_def)

lemma SD_LogObservation_card:
  "sd_card (SD_LogObservation e obs s) =
     (if SD_exists s \<and> RTC_valid s \<and> SD_open e (SD_logfile_name (now s))
      then sd_card s @ [(SD_logfile_name (now s), obs)] else sd_card s)"
  by (simp add: SD_LogObservation_def Let_def)

section \<open>An invalid clock\<close>

text \<open>
  C4. When \<open>RTC_valid\<close> is false, \<open>OBS_Do\<close> does nothing but \<open>Output ("OBS_Do: Time NV")\<close>,
  whatever \<open>log_obs\<close> is: the message goes to the display and the serial console (where
  enabled), \<open>msgbuf\<close> and the SD card are untouched and no other global changes.
  \<open>SD_LogObservation\<close> has the same guard and changes nothing either.
\<close>

theorem OBS_Do_clock_invalid:
  assumes "\<not> RTC_valid s"
  shows "OBS_Do e log_obs s = Output ''OBS_Do: Time NV'' s \<and>
    OBS_Do e log_obs s =
      s\<lparr>oled_out :=
           (if DisplayEnabled s then oled_out s @ [''OBS_Do: Time NV''] else oled_out s),
        serial_out :=
           (if SerialConsoleEnabled s then serial_out s @ [''OBS_Do: Time NV'']
            else serial_out s)\<rparr> \<and>
    msgbuf (OBS_Do e log_obs s) = msgbuf s \<and>
    sd_card (OBS_Do e log_obs s) = sd_card s \<and>
    SD_LogObservation e obs s = s"
  using assms
  by (simp add: OBS_Do_def SD_LogObservation_def Output_def Serial_write_def OLED_write_def)

theorem OBS_Do_clock_invalid_witness:
  "\<not> RTC_valid boot_state \<and>
   OBS_Do bench_env True boot_state = Output ''OBS_Do: Time NV'' boot_state \<and>
   oled_out (OBS_Do bench_env True boot_state) = [''OBS_Do: Time NV''] \<and>
   serial_out (OBS_Do bench_env True boot_state) = [] \<and>
   msgbuf (OBS_Do bench_env True boot_state) = [] \<and>
   sd_card (OBS_Do bench_env True boot_state) = []"
proof -
  have h: "\<not> RTC_valid boot_state" by (simp add: boot_state_def)
  show ?thesis
    using h OBS_Do_clock_invalid [OF h, of bench_env True "[]"]
    by (simp add: boot_state_def Output_logs)
qed

section \<open>The presence monitor\<close>

lemma recover_1_fields [simp]:
  "JustPoweredOn (recover_1 e d msg s) = JustPoweredOn s"
  "RTC_valid (recover_1 e d msg s) = RTC_valid s"
  "SD_exists (recover_1 e d msg s) = SD_exists s"
  "SerialConsoleEnabled (recover_1 e d msg s) = SerialConsoleEnabled s"
  "DisplayEnabled (recover_1 e d msg s) = DisplayEnabled s"
  "cf_ds_type (recover_1 e d msg s) = cf_ds_type s"
  "BMX_1_chip_id (recover_1 e d msg s) = BMX_1_chip_id s"
  "BMX_2_chip_id (recover_1 e d msg s) = BMX_2_chip_id s"
  "BMX_2_exists (recover_1 e d msg s) = BMX_2_exists s"
  "BMX_1_type (recover_1 e d msg s) = BMX_1_type s"
  "BMX_2_type (recover_1 e d msg s) = BMX_2_type s"
  "MCP_1_exists (recover_1 e d msg s) = MCP_1_exists s"
  "ds_found (recover_1 e d msg s) = ds_found s"
  "ds_reading (recover_1 e d msg s) = ds_reading s"
  "ds_valid (recover_1 e d msg s) = ds_valid s"
  "now (recover_1 e d msg s) = now s"
  "timestamp (recover_1 e d msg s) = timestamp s"
  "msgbuf (recover_1 e d msg s) = msgbuf s"
  "sd_card (recover_1 e d msg s) = sd_card s"
  by (simp_all add: recover_1_def call_begin_def Let_def)

lemma recover_1_effect:
  "BMX_1_exists (recover_1 e d msg s) = (drv_begin e d BMX_ADDRESS_1 \<or> BMX_1_exists s)"
  "SystemStatusBits (recover_1 e d msg s) =
     (if drv_begin e d BMX_ADDRESS_1 then SystemStatusBits s AND NOT SSB_BMX_1
      else SystemStatusBits s)"
  "oled_out (recover_1 e d msg s) =
     (if drv_begin e d BMX_ADDRESS_1 \<and> DisplayEnabled s then oled_out s @ [take 22 msg]
      else oled_out s)"
  "serial_out (recover_1 e d msg s) =
     (if drv_begin e d BMX_ADDRESS_1 \<and> SerialConsoleEnabled s then serial_out s @ [msg]
      else serial_out s)"
  "begin_calls (recover_1 e d msg s) = begin_calls s @ [(d, BMX_ADDRESS_1)]"
  by (simp_all add: recover_1_def call_begin_def Let_def Output_logs)

lemma I2C_Check_BMX_1_fields [simp]:
  "JustPoweredOn (I2C_Check_BMX_1 e s) = JustPoweredOn s"
  "RTC_valid (I2C_Check_BMX_1 e s) = RTC_valid s"
  "SD_exists (I2C_Check_BMX_1 e s) = SD_exists s"
  "SerialConsoleEnabled (I2C_Check_BMX_1 e s) = SerialConsoleEnabled s"
  "DisplayEnabled (I2C_Check_BMX_1 e s) = DisplayEnabled s"
  "cf_ds_type (I2C_Check_BMX_1 e s) = cf_ds_type s"
  "BMX_1_chip_id (I2C_Check_BMX_1 e s) = BMX_1_chip_id s"
  "BMX_2_chip_id (I2C_Check_BMX_1 e s) = BMX_2_chip_id s"
  "BMX_2_exists (I2C_Check_BMX_1 e s) = BMX_2_exists s"
  "BMX_1_type (I2C_Check_BMX_1 e s) = BMX_1_type s"
  "BMX_2_type (I2C_Check_BMX_1 e s) = BMX_2_type s"
  "MCP_1_exists (I2C_Check_BMX_1 e s) = MCP_1_exists s"
  "ds_found (I2C_Check_BMX_1 e s) = ds_found s"
  "ds_reading (I2C_Check_BMX_1 e s) = ds_reading s"
  "ds_valid (I2C_Check_BMX_1 e s) = ds_valid s"
  "now (I2C_Check_BMX_1 e s) = now s"
  "timestamp (I2C_Check_BMX_1 e s) = timestamp s"
  "msgbuf (I2C_Check_BMX_1 e s) = msgbuf s"
  "sd_card (I2C_Check_BMX_1 e s) = sd_card s"
  by (simp_all add: I2C_Check_BMX_1_def Let_def)

text \<open>
  The driver that the recovery of slot 1 calls: the guard of the second branch repeats
  the guard of the first, so the choice is between the first and the last branch only.
\<close>

lemma I2C_Check_BMX_1_effect:
  "BMX_1_exists (I2C_Check_BMX_1 e s) =
     (I2C_Device_Exist e BMX_ADDRESS_1 \<and>
      (BMX_1_exists s \<or>
       drv_begin e (if BMX_1_chip_id s = BME280_BMP390_CHIP_ID then bmp1 else bm31)
         BMX_ADDRESS_1))"
  "SystemStatusBits (I2C_Check_BMX_1 e s) =
     (if I2C_Device_Exist e BMX_ADDRESS_1
      then if \<not> BMX_1_exists s \<and>
              drv_begin e (if BMX_1_chip_id s = BME280_BMP390_CHIP_ID then bmp1 else bm31)
                BMX_ADDRESS_1
           then SystemStatusBits s AND NOT SSB_BMX_1 else SystemStatusBits s
      else if BMX_1_exists s then SystemStatusBits s OR SSB_BMX_1 else SystemStatusBits s)"
  "oled_out (I2C_Check_BMX_1 e s) =
     (if I2C_Device_Exist e BMX_ADDRESS_1
      then if \<not> BMX_1_exists s \<and> DisplayEnabled s \<and>
              drv_begin e (if BMX_1_chip_id s = BME280_BMP390_CHIP_ID then bmp1 else bm31)
                BMX_ADDRESS_1
           then oled_out s @
                  [if BMX_1_chip_id s = BME280_BMP390_CHIP_ID then ''BMP1 ONLINE''
                   else ''BM31 ONLINE'']
           else oled_out s
      else if BMX_1_exists s \<and> DisplayEnabled s then oled_out s @ [''BMX1 OFFLINE'']
           else oled_out s)"
  "serial_out (I2C_Check_BMX_1 e s) =
     (if I2C_Device_Exist e BMX_ADDRESS_1
      then if \<not> BMX_1_exists s \<and> SerialConsoleEnabled s \<and>
              drv_begin e (if BMX_1_chip_id s = BME280_BMP390_CHIP_ID then bmp1 else bm31)
                BMX_ADDRESS_1
           then serial_out s @
                  [if BMX_1_chip_id s = BME280_BMP390_CHIP_ID then ''BMP1 ONLINE''
                   else ''BM31 ONLINE'']
           else serial_out s
      else if BMX_1_exists s \<and> SerialConsoleEnabled s then serial_out s @ [''BMX1 OFFLINE'']
           else serial_out s)"
  "begin_calls (I2C_Check_BMX_1 e s) =
     begin_calls s @
     (if I2C_Device_Exist e BMX_ADDRESS_1 \<and> \<not> BMX_1_exists s
      then [(if BMX_1_chip_id s = BME280_BMP390_CHIP_ID then bmp1 else bm31, BMX_ADDRESS_1)]
      else [])"
  by (simp_all add: I2C_Check_BMX_1_def Let_def recover_1_effect Output_logs)

lemma recover_2_fields [simp]:
  "JustPoweredOn (recover_2 e d msg s) = JustPoweredOn s"
  "RTC_valid (recover_2 e d msg s) = RTC_valid s"
  "SD_exists (recover_2 e d msg s) = SD_exists s"
  "SerialConsoleEnabled (recover_2 e d msg s) = SerialConsoleEnabled s"
  "DisplayEnabled (recover_2 e d msg s) = DisplayEnabled s"
  "cf_ds_type (recover_2 e d msg s) = cf_ds_type s"
  "BMX_1_chip_id (recover_2 e d msg s) = BMX_1_chip_id s"
  "BMX_2_chip_id (recover_2 e d msg s) = BMX_2_chip_id s"
  "BMX_1_exists (recover_2 e d msg s) = BMX_1_exists s"
  "BMX_1_type (recover_2 e d msg s) = BMX_1_type s"
  "BMX_2_type (recover_2 e d msg s) = BMX_2_type s"
  "MCP_1_exists (recover_2 e d msg s) = MCP_1_exists s"
  "ds_found (recover_2 e d msg s) = ds_found s"
  "ds_reading (recover_2 e d msg s) = ds_reading s"
  "ds_valid (recover_2 e d msg s) = ds_valid s"
  "now (recover_2 e d msg s) = now s"
  "timestamp (recover_2 e d msg s) = timestamp s"
  "msgbuf (recover_2 e d msg s) = msgbuf s"
  "sd_card (recover_2 e d msg s) = sd_card s"
  by (simp_all add: recover_2_def call_begin_def Let_def)

lemma recover_2_effect:
  "BMX_2_exists (recover_2 e d msg s) = (drv_begin e d BMX_ADDRESS_2 \<or> BMX_2_exists s)"
  "SystemStatusBits (recover_2 e d msg s) =
     (if drv_begin e d BMX_ADDRESS_2 then SystemStatusBits s AND NOT SSB_BMX_2
      else SystemStatusBits s)"
  "oled_out (recover_2 e d msg s) =
     (if drv_begin e d BMX_ADDRESS_2 \<and> DisplayEnabled s then oled_out s @ [take 22 msg]
      else oled_out s)"
  "serial_out (recover_2 e d msg s) =
     (if drv_begin e d BMX_ADDRESS_2 \<and> SerialConsoleEnabled s then serial_out s @ [msg]
      else serial_out s)"
  "begin_calls (recover_2 e d msg s) = begin_calls s @ [(d, BMX_ADDRESS_2)]"
  by (simp_all add: recover_2_def call_begin_def Let_def Output_logs)

lemma I2C_Check_BMX_2_fields [simp]:
  "JustPoweredOn (I2C_Check_BMX_2 e s) = JustPoweredOn s"
  "RTC_valid (I2C_Check_BMX_2 e s) = RTC_valid s"
  "SD_exists (I2C_Check_BMX_2 e s) = SD_exists s"
  "SerialConsoleEnabled (I2C_Check_BMX_2 e s) = SerialConsoleEnabled s"
  "DisplayEnabled (I2C_Check_BMX_2 e s) = DisplayEnabled s"
  "cf_ds_type (I2C_Check_BMX_2 e s) = cf_ds_type s"
  "BMX_1_chip_id (I2C_Check_BMX_2 e s) = BMX_1_chip_id s"
  "BMX_2_chip_id (I2C_Check_BMX_2 e s) = BMX_2_chip_id s"
  "BMX_1_exists (I2C_Check_BMX_2 e s) = BMX_1_exists s"
  "BMX_1_type (I2C_Check_BMX_2 e s) = BMX_1_type s"
  "BMX_2_type (I2C_Check_BMX_2 e s) = BMX_2_type s"
  "MCP_1_exists (I2C_Check_BMX_2 e s) = MCP_1_exists s"
  "ds_found (I2C_Check_BMX_2 e s) = ds_found s"
  "ds_reading (I2C_Check_BMX_2 e s) = ds_reading s"
  "ds_valid (I2C_Check_BMX_2 e s) = ds_valid s"
  "now (I2C_Check_BMX_2 e s) = now s"
  "timestamp (I2C_Check_BMX_2 e s) = timestamp s"
  "msgbuf (I2C_Check_BMX_2 e s) = msgbuf s"
  "sd_card (I2C_Check_BMX_2 e s) = sd_card s"
  by (simp_all add: I2C_Check_BMX_2_def Let_def)

text \<open>
  The driver that the recovery of slot 2 calls: the guard of the second branch repeats
  the guard of the first, so the choice is between the first and the last branch only.
\<close>

lemma I2C_Check_BMX_2_effect:
  "BMX_2_exists (I2C_Check_BMX_2 e s) =
     (I2C_Device_Exist e BMX_ADDRESS_2 \<and>
      (BMX_2_exists s \<or>
       drv_begin e (if BMX_2_chip_id s = BME280_BMP390_CHIP_ID then bmp2 else bm32)
         BMX_ADDRESS_2))"
  "SystemStatusBits (I2C_Check_BMX_2 e s) =
     (if I2C_Device_Exist e BMX_ADDRESS_2
      then if \<not> BMX_2_exists s \<and>
              drv_begin e (if BMX_2_chip_id s = BME280_BMP390_CHIP_ID then bmp2 else bm32)
                BMX_ADDRESS_2
           then SystemStatusBits s AND NOT SSB_BMX_2 else SystemStatusBits s
      else if BMX_2_exists s then SystemStatusBits s OR SSB_BMX_2 else SystemStatusBits s)"
  "oled_out (I2C_Check_BMX_2 e s) =
     (if I2C_Device_Exist e BMX_ADDRESS_2
      then if \<not> BMX_2_exists s \<and> DisplayEnabled s \<and>
              drv_begin e (if BMX_2_chip_id s = BME280_BMP390_CHIP_ID then bmp2 else bm32)
                BMX_ADDRESS_2
           then oled_out s @
                  [if BMX_2_chip_id s = BME280_BMP390_CHIP_ID then ''BMP2 ONLINE''
                   else ''BM32 ONLINE'']
           else oled_out s
      else if BMX_2_exists s \<and> DisplayEnabled s then oled_out s @ [''BMX2 OFFLINE'']
           else oled_out s)"
  "serial_out (I2C_Check_BMX_2 e s) =
     (if I2C_Device_Exist e BMX_ADDRESS_2
      then if \<not> BMX_2_exists s \<and> SerialConsoleEnabled s \<and>
              drv_begin e (if BMX_2_chip_id s = BME280_BMP390_CHIP_ID then bmp2 else bm32)
                BMX_ADDRESS_2
           then serial_out s @
                  [if BMX_2_chip_id s = BME280_BMP390_CHIP_ID then ''BMP2 ONLINE''
                   else ''BM32 ONLINE'']
           else serial_out s
      else if BMX_2_exists s \<and> SerialConsoleEnabled s then serial_out s @ [''BMX2 OFFLINE'']
           else serial_out s)"
  "begin_calls (I2C_Check_BMX_2 e s) =
     begin_calls s @
     (if I2C_Device_Exist e BMX_ADDRESS_2 \<and> \<not> BMX_2_exists s
      then [(if BMX_2_chip_id s = BME280_BMP390_CHIP_ID then bmp2 else bm32, BMX_ADDRESS_2)]
      else [])"
  by (simp_all add: I2C_Check_BMX_2_def Let_def recover_2_effect Output_logs)

lemma I2C_Check_Sensors_fields [simp]:
  "JustPoweredOn (I2C_Check_Sensors e s) = JustPoweredOn s"
  "RTC_valid (I2C_Check_Sensors e s) = RTC_valid s"
  "SD_exists (I2C_Check_Sensors e s) = SD_exists s"
  "SerialConsoleEnabled (I2C_Check_Sensors e s) = SerialConsoleEnabled s"
  "DisplayEnabled (I2C_Check_Sensors e s) = DisplayEnabled s"
  "cf_ds_type (I2C_Check_Sensors e s) = cf_ds_type s"
  "BMX_1_chip_id (I2C_Check_Sensors e s) = BMX_1_chip_id s"
  "BMX_2_chip_id (I2C_Check_Sensors e s) = BMX_2_chip_id s"
  "BMX_1_type (I2C_Check_Sensors e s) = BMX_1_type s"
  "BMX_2_type (I2C_Check_Sensors e s) = BMX_2_type s"
  "MCP_1_exists (I2C_Check_Sensors e s) = MCP_1_exists s"
  "ds_found (I2C_Check_Sensors e s) = ds_found s"
  "ds_reading (I2C_Check_Sensors e s) = ds_reading s"
  "ds_valid (I2C_Check_Sensors e s) = ds_valid s"
  "now (I2C_Check_Sensors e s) = now s"
  "timestamp (I2C_Check_Sensors e s) = timestamp s"
  "msgbuf (I2C_Check_Sensors e s) = msgbuf s"
  "sd_card (I2C_Check_Sensors e s) = sd_card s"
  by (simp_all add: I2C_Check_Sensors_def)

lemma I2C_Check_Sensors_exists:
  "BMX_1_exists (I2C_Check_Sensors e s) = BMX_1_exists (I2C_Check_BMX_1 e s)"
  "BMX_2_exists (I2C_Check_Sensors e s) = BMX_2_exists (I2C_Check_BMX_2 e s)"
  by (simp_all add: I2C_Check_Sensors_def I2C_Check_BMX_2_effect)

lemma I2C_Check_Sensors_second_call:
  "BMX_1_exists (I2C_Check_Sensors e (I2C_Check_Sensors e s)) = BMX_1_exists (I2C_Check_Sensors e s) \<and>
   BMX_2_exists (I2C_Check_Sensors e (I2C_Check_Sensors e s)) = BMX_2_exists (I2C_Check_Sensors e s) \<and>
   SystemStatusBits (I2C_Check_Sensors e (I2C_Check_Sensors e s)) = SystemStatusBits (I2C_Check_Sensors e s) \<and>
   oled_out (I2C_Check_Sensors e (I2C_Check_Sensors e s)) = oled_out (I2C_Check_Sensors e s) \<and>
   serial_out (I2C_Check_Sensors e (I2C_Check_Sensors e s)) = serial_out (I2C_Check_Sensors e s)"
proof -
  let ?s1 = "I2C_Check_Sensors e s"
  have e1: "BMX_1_exists (I2C_Check_Sensors e ?s1) = BMX_1_exists ?s1"
    by (simp add: I2C_Check_Sensors_exists I2C_Check_BMX_1_effect) blast
  have e2: "BMX_2_exists (I2C_Check_Sensors e ?s1) = BMX_2_exists ?s1"
    by (simp add: I2C_Check_Sensors_exists I2C_Check_BMX_2_effect) blast
  have c1: "I2C_Device_Exist e BMX_ADDRESS_1 \<Longrightarrow> \<not> BMX_1_exists ?s1 \<Longrightarrow>
     \<not> drv_begin e (if BMX_1_chip_id s = BME280_BMP390_CHIP_ID then bmp1 else bm31) BMX_ADDRESS_1"
    by (simp add: I2C_Check_Sensors_exists I2C_Check_BMX_1_effect)
  have c1': "\<not> I2C_Device_Exist e BMX_ADDRESS_1 \<Longrightarrow> \<not> BMX_1_exists ?s1"
    by (simp add: I2C_Check_Sensors_exists I2C_Check_BMX_1_effect)
  have c2: "I2C_Device_Exist e BMX_ADDRESS_2 \<Longrightarrow> \<not> BMX_2_exists ?s1 \<Longrightarrow>
     \<not> drv_begin e (if BMX_2_chip_id s = BME280_BMP390_CHIP_ID then bmp2 else bm32) BMX_ADDRESS_2"
    by (simp add: I2C_Check_Sensors_exists I2C_Check_BMX_2_effect)
  have c2': "\<not> I2C_Device_Exist e BMX_ADDRESS_2 \<Longrightarrow> \<not> BMX_2_exists ?s1"
    by (simp add: I2C_Check_Sensors_exists I2C_Check_BMX_2_effect)
  have a1: "SystemStatusBits (I2C_Check_BMX_1 e ?s1) = SystemStatusBits ?s1"
       "oled_out (I2C_Check_BMX_1 e ?s1) = oled_out ?s1"
       "serial_out (I2C_Check_BMX_1 e ?s1) = serial_out ?s1"
    using c1 c1' by (auto simp add: I2C_Check_BMX_1_effect)
  have x2: "BMX_2_exists (I2C_Check_BMX_1 e ?s1) = BMX_2_exists ?s1" by simp
  have a2: "SystemStatusBits (I2C_Check_Sensors e ?s1) = SystemStatusBits ?s1"
       "oled_out (I2C_Check_Sensors e ?s1) = oled_out ?s1"
       "serial_out (I2C_Check_Sensors e ?s1) = serial_out ?s1"
    using c2 c2' a1 x2
    by (auto simp add: I2C_Check_Sensors_def [of e ?s1] I2C_Check_BMX_2_effect)
  show ?thesis using e1 e2 a2 by simp
qed


text \<open>
  C8. A second call of \<open>I2C_Check_Sensors\<close> that gets the same answers from the bus and
  from the drivers as the first leaves \<open>BMX_1_exists\<close>, \<open>BMX_2_exists\<close> and
  \<open>SystemStatusBits\<close> as the first call left them and prints nothing, neither on the
  display nor on the serial console: a transition is made and reported by the first
  call or not at all.
\<close>

theorem I2C_Check_Sensors_twice:
  "BMX_1_exists (I2C_Check_Sensors e (I2C_Check_Sensors e s)) =
     BMX_1_exists (I2C_Check_Sensors e s) \<and>
   BMX_2_exists (I2C_Check_Sensors e (I2C_Check_Sensors e s)) =
     BMX_2_exists (I2C_Check_Sensors e s) \<and>
   SystemStatusBits (I2C_Check_Sensors e (I2C_Check_Sensors e s)) =
     SystemStatusBits (I2C_Check_Sensors e s) \<and>
   oled_out (I2C_Check_Sensors e (I2C_Check_Sensors e s)) = oled_out (I2C_Check_Sensors e s) \<and>
   serial_out (I2C_Check_Sensors e (I2C_Check_Sensors e s)) =
     serial_out (I2C_Check_Sensors e s) \<and>
   I2C_Check_Sensors e (I2C_Check_Sensors e s) =
     (I2C_Check_Sensors e s)
       \<lparr>begin_calls := begin_calls (I2C_Check_Sensors e (I2C_Check_Sensors e s))\<rparr>"
proof -
  note sc = I2C_Check_Sensors_second_call [of e s]
  have "I2C_Check_Sensors e (I2C_Check_Sensors e s) =
     (I2C_Check_Sensors e s)
       \<lparr>begin_calls := begin_calls (I2C_Check_Sensors e (I2C_Check_Sensors e s))\<rparr>"
    using sc by (intro state.equality) simp_all
  with sc show ?thesis by simp
qed

lemma I2C_Check_Sensors_calls:
  "begin_calls (I2C_Check_Sensors e s) =
     begin_calls s @
     (if I2C_Device_Exist e BMX_ADDRESS_1 \<and> \<not> BMX_1_exists s
      then [(if BMX_1_chip_id s = BME280_BMP390_CHIP_ID then bmp1 else bm31, BMX_ADDRESS_1)]
      else []) @
     (if I2C_Device_Exist e BMX_ADDRESS_2 \<and> \<not> BMX_2_exists s
      then [(if BMX_2_chip_id s = BME280_BMP390_CHIP_ID then bmp2 else bm32, BMX_ADDRESS_2)]
      else [])"
  by (simp add: I2C_Check_Sensors_def I2C_Check_BMX_1_effect I2C_Check_BMX_2_effect)

lemma I2C_Check_BMX_indep:
  assumes "\<And>a. b bmp1 a = drv_begin e bmp1 a" "\<And>a. b bm31 a = drv_begin e bm31 a"
     "\<And>a. b bmp2 a = drv_begin e bmp2 a" "\<And>a. b bm32 a = drv_begin e bm32 a"
  shows "I2C_Check_BMX_1 (e\<lparr>drv_begin := b\<rparr>) s = I2C_Check_BMX_1 e s"
    and "I2C_Check_BMX_2 (e\<lparr>drv_begin := b\<rparr>) s = I2C_Check_BMX_2 e s"
  using assms
  by (simp_all add: I2C_Check_BMX_1_def I2C_Check_BMX_2_def recover_1_def recover_2_def
        call_begin_def I2C_Device_Exist_def)

text \<open>
  C10. For every cached identity byte, \<open>I2C_Check_Sensors\<close> never calls \<open>bme1.begin\<close> or
  \<open>bme2.begin\<close>: the calls it adds to the log contain neither driver, and its result does
  not depend on what those two calls would return. So a slot whose cached identity is
  \<open>0x60\<close> (BME280 or BMP390) and which is offline comes back online only if
  \<open>bmp1.begin\<close> (for the second slot \<open>bmp2.begin\<close>) succeeds, and that is the one call
  made for it.
\<close>

theorem I2C_Check_Sensors_never_bme:
  "(bme1, a) \<notin> set (new_calls s (I2C_Check_Sensors e s)) \<and>
   (bme2, a) \<notin> set (new_calls s (I2C_Check_Sensors e s)) \<and>
   I2C_Check_Sensors
     (e\<lparr>drv_begin := (\<lambda>d. if d = bme1 \<or> d = bme2 then f d else drv_begin e d)\<rparr>) s =
     I2C_Check_Sensors e s \<and>
   (BMX_1_chip_id s = BME280_BMP390_CHIP_ID \<and> \<not> BMX_1_exists s \<and>
      BMX_1_exists (I2C_Check_Sensors e s) \<longrightarrow>
      drv_begin e bmp1 BMX_ADDRESS_1 \<and>
      new_calls s (I2C_Check_BMX_1 e s) = [(bmp1, BMX_ADDRESS_1)]) \<and>
   (BMX_2_chip_id s = BME280_BMP390_CHIP_ID \<and> \<not> BMX_2_exists s \<and>
      BMX_2_exists (I2C_Check_Sensors e s) \<longrightarrow>
      drv_begin e bmp2 BMX_ADDRESS_2 \<and>
      new_calls (I2C_Check_BMX_1 e s) (I2C_Check_Sensors e s) = [(bmp2, BMX_ADDRESS_2)])"
proof -
  have calls: "(bme1, a) \<notin> set (new_calls s (I2C_Check_Sensors e s))"
     "(bme2, a) \<notin> set (new_calls s (I2C_Check_Sensors e s))"
    by (simp_all add: new_calls_def I2C_Check_Sensors_calls)
  have indep: "I2C_Check_Sensors
     (e\<lparr>drv_begin := (\<lambda>d. if d = bme1 \<or> d = bme2 then f d else drv_begin e d)\<rparr>) s =
     I2C_Check_Sensors e s"
    by (simp add: I2C_Check_Sensors_def I2C_Check_BMX_indep)
  have r1: "BMX_1_chip_id s = BME280_BMP390_CHIP_ID \<and> \<not> BMX_1_exists s \<and>
      BMX_1_exists (I2C_Check_Sensors e s) \<longrightarrow>
      drv_begin e bmp1 BMX_ADDRESS_1 \<and>
      new_calls s (I2C_Check_BMX_1 e s) = [(bmp1, BMX_ADDRESS_1)]"
    by (auto simp add: I2C_Check_Sensors_exists I2C_Check_BMX_1_effect new_calls_def)
  have r2: "BMX_2_chip_id s = BME280_BMP390_CHIP_ID \<and> \<not> BMX_2_exists s \<and>
      BMX_2_exists (I2C_Check_Sensors e s) \<longrightarrow>
      drv_begin e bmp2 BMX_ADDRESS_2 \<and>
      new_calls (I2C_Check_BMX_1 e s) (I2C_Check_Sensors e s) = [(bmp2, BMX_ADDRESS_2)]"
    by (auto simp add: I2C_Check_Sensors_exists I2C_Check_BMX_2_effect new_calls_def
        I2C_Check_Sensors_def)
  show ?thesis using calls indep r1 r2 by blast
qed

theorem I2C_Check_Sensors_never_bme_witness:
  "BMX_1_chip_id offline_bme_state = BME280_BMP390_CHIP_ID \<and>
   \<not> BMX_1_exists offline_bme_state \<and>
   BMX_1_exists (I2C_Check_Sensors bmp_driver_env offline_bme_state) \<and>
   drv_begin bmp_driver_env bmp1 BMX_ADDRESS_1 \<and>
   \<not> drv_begin bmp_driver_env bme1 BMX_ADDRESS_1 \<and>
   new_calls offline_bme_state (I2C_Check_Sensors bmp_driver_env offline_bme_state) =
     [(bmp1, BMX_ADDRESS_1)] \<and>
   \<not> BMX_1_exists (I2C_Check_Sensors bench_env offline_bme_state)"
proof -
  have h: "BMX_1_chip_id offline_bme_state = BME280_BMP390_CHIP_ID"
      "\<not> BMX_1_exists offline_bme_state"
    by (simp_all add: offline_bme_state_def bench_state_def boot_state_def)
  have ex: "BMX_1_exists (I2C_Check_Sensors bmp_driver_env offline_bme_state)"
    by (simp add: I2C_Check_Sensors_exists I2C_Check_BMX_1_effect I2C_Device_Exist_def
        bmp_driver_env_def bench_env_def offline_bme_state_def bench_state_def boot_state_def)
  have nex: "\<not> BMX_1_exists (I2C_Check_Sensors bench_env offline_bme_state)"
    by (simp add: I2C_Check_Sensors_exists I2C_Check_BMX_1_effect I2C_Device_Exist_def
        bench_env_def offline_bme_state_def bench_state_def boot_state_def)
  have calls: "new_calls offline_bme_state (I2C_Check_Sensors bmp_driver_env offline_bme_state) =
     [(bmp1, BMX_ADDRESS_1)]"
    by (simp add: new_calls_def I2C_Check_Sensors_calls I2C_Device_Exist_def
        bmp_driver_env_def bench_env_def offline_bme_state_def bench_state_def boot_state_def
        BMX_ADDRESS_1_def BMX_ADDRESS_2_def)
  have nb: "\<not> drv_begin bmp_driver_env bme1 BMX_ADDRESS_1"
    by (simp add: bmp_driver_env_def bench_env_def)
  from I2C_Check_Sensors_never_bme [of BMX_ADDRESS_1 offline_bme_state bmp_driver_env]
  have "drv_begin bmp_driver_env bmp1 BMX_ADDRESS_1"
    using h ex by blast
  with h ex nex calls nb show ?thesis by simp
qed

section \<open>Identification at boot\<close>

lemma Output_msgbuf_fields [simp]:
  "SystemStatusBits (Output_msgbuf str s) = SystemStatusBits s"
  "JustPoweredOn (Output_msgbuf str s) = JustPoweredOn s"
  "RTC_valid (Output_msgbuf str s) = RTC_valid s"
  "SD_exists (Output_msgbuf str s) = SD_exists s"
  "SerialConsoleEnabled (Output_msgbuf str s) = SerialConsoleEnabled s"
  "DisplayEnabled (Output_msgbuf str s) = DisplayEnabled s"
  "cf_ds_type (Output_msgbuf str s) = cf_ds_type s"
  "BMX_1_chip_id (Output_msgbuf str s) = BMX_1_chip_id s"
  "BMX_2_chip_id (Output_msgbuf str s) = BMX_2_chip_id s"
  "BMX_1_exists (Output_msgbuf str s) = BMX_1_exists s"
  "BMX_2_exists (Output_msgbuf str s) = BMX_2_exists s"
  "BMX_1_type (Output_msgbuf str s) = BMX_1_type s"
  "BMX_2_type (Output_msgbuf str s) = BMX_2_type s"
  "MCP_1_exists (Output_msgbuf str s) = MCP_1_exists s"
  "ds_found (Output_msgbuf str s) = ds_found s"
  "ds_reading (Output_msgbuf str s) = ds_reading s"
  "ds_valid (Output_msgbuf str s) = ds_valid s"
  "now (Output_msgbuf str s) = now s"
  "timestamp (Output_msgbuf str s) = timestamp s"
  "sd_card (Output_msgbuf str s) = sd_card s"
  "begin_calls (Output_msgbuf str s) = begin_calls s"
  by (simp_all add: Output_msgbuf_def)

lemma probe_stage_fields [simp]:
  "SystemStatusBits (snd (probe_stage e a r s)) = SystemStatusBits s"
  "JustPoweredOn (snd (probe_stage e a r s)) = JustPoweredOn s"
  "RTC_valid (snd (probe_stage e a r s)) = RTC_valid s"
  "SD_exists (snd (probe_stage e a r s)) = SD_exists s"
  "SerialConsoleEnabled (snd (probe_stage e a r s)) = SerialConsoleEnabled s"
  "DisplayEnabled (snd (probe_stage e a r s)) = DisplayEnabled s"
  "cf_ds_type (snd (probe_stage e a r s)) = cf_ds_type s"
  "BMX_1_chip_id (snd (probe_stage e a r s)) = BMX_1_chip_id s"
  "BMX_2_chip_id (snd (probe_stage e a r s)) = BMX_2_chip_id s"
  "BMX_1_exists (snd (probe_stage e a r s)) = BMX_1_exists s"
  "BMX_2_exists (snd (probe_stage e a r s)) = BMX_2_exists s"
  "BMX_1_type (snd (probe_stage e a r s)) = BMX_1_type s"
  "BMX_2_type (snd (probe_stage e a r s)) = BMX_2_type s"
  "MCP_1_exists (snd (probe_stage e a r s)) = MCP_1_exists s"
  "ds_found (snd (probe_stage e a r s)) = ds_found s"
  "ds_reading (snd (probe_stage e a r s)) = ds_reading s"
  "ds_valid (snd (probe_stage e a r s)) = ds_valid s"
  "now (snd (probe_stage e a r s)) = now s"
  "timestamp (snd (probe_stage e a r s)) = timestamp s"
  "sd_card (snd (probe_stage e a r s)) = sd_card s"
  "begin_calls (snd (probe_stage e a r s)) = begin_calls s"
  by (simp_all add: probe_stage_def Let_def)

lemma get_Bosch_ChipID_fields [simp]:
  "SystemStatusBits (snd (get_Bosch_ChipID e a s)) = SystemStatusBits s"
  "JustPoweredOn (snd (get_Bosch_ChipID e a s)) = JustPoweredOn s"
  "RTC_valid (snd (get_Bosch_ChipID e a s)) = RTC_valid s"
  "SD_exists (snd (get_Bosch_ChipID e a s)) = SD_exists s"
  "SerialConsoleEnabled (snd (get_Bosch_ChipID e a s)) = SerialConsoleEnabled s"
  "DisplayEnabled (snd (get_Bosch_ChipID e a s)) = DisplayEnabled s"
  "cf_ds_type (snd (get_Bosch_ChipID e a s)) = cf_ds_type s"
  "BMX_1_chip_id (snd (get_Bosch_ChipID e a s)) = BMX_1_chip_id s"
  "BMX_2_chip_id (snd (get_Bosch_ChipID e a s)) = BMX_2_chip_id s"
  "BMX_1_exists (snd (get_Bosch_ChipID e a s)) = BMX_1_exists s"
  "BMX_2_exists (snd (get_Bosch_ChipID e a s)) = BMX_2_exists s"
  "BMX_1_type (snd (get_Bosch_ChipID e a s)) = BMX_1_type s"
  "BMX_2_type (snd (get_Bosch_ChipID e a s)) = BMX_2_type s"
  "MCP_1_exists (snd (get_Bosch_ChipID e a s)) = MCP_1_exists s"
  "ds_found (snd (get_Bosch_ChipID e a s)) = ds_found s"
  "ds_reading (snd (get_Bosch_ChipID e a s)) = ds_reading s"
  "ds_valid (snd (get_Bosch_ChipID e a s)) = ds_valid s"
  "now (snd (get_Bosch_ChipID e a s)) = now s"
  "timestamp (snd (get_Bosch_ChipID e a s)) = timestamp s"
  "sd_card (snd (get_Bosch_ChipID e a s)) = sd_card s"
  "begin_calls (snd (get_Bosch_ChipID e a s)) = begin_calls s"
  by (simp_all add: get_Bosch_ChipID_def Let_def case_prod_unfold split: option.split)



lemma bmx_initialize_1_chip_id:
  "BMX_1_chip_id (bmx_initialize_1 e s) = fst (get_Bosch_ChipID e BMX_ADDRESS_1 s)"
  by (simp add: bmx_initialize_1_def Let_def case_prod_unfold call_begin_def)

lemma bmx_initialize_1_BMP280:
  assumes "fst (get_Bosch_ChipID e BMX_ADDRESS_1 s) = BMP280_CHIP_ID"
  shows "new_calls s (bmx_initialize_1 e s) = [(bmp1, BMX_ADDRESS_1)]"
    and "BMX_1_exists (bmx_initialize_1 e s) = drv_begin e bmp1 BMX_ADDRESS_1"
    and "drv_begin e bmp1 BMX_ADDRESS_1 \<Longrightarrow> BMX_1_type (bmx_initialize_1 e s) = BMX_TYPE_BMP280"
    and "SystemStatusBits (bmx_initialize_1 e s) =
          (if drv_begin e bmp1 BMX_ADDRESS_1 then SystemStatusBits s
           else SystemStatusBits s OR SSB_BMX_1)"
  using assms
  by (simp_all add: bmx_initialize_1_def Let_def case_prod_unfold call_begin_def new_calls_def)

lemma bmx_initialize_1_BME280_BMP390:
  assumes "fst (get_Bosch_ChipID e BMX_ADDRESS_1 s) = BME280_BMP390_CHIP_ID"
  shows "new_calls s (bmx_initialize_1 e s) =
          (if drv_begin e bme1 BMX_ADDRESS_1 then [(bme1, BMX_ADDRESS_1)]
           else [(bme1, BMX_ADDRESS_1), (bm31, BMX_ADDRESS_1)])"
    and "BMX_1_exists (bmx_initialize_1 e s) =
          (drv_begin e bme1 BMX_ADDRESS_1 \<or> drv_begin e bm31 BMX_ADDRESS_1)"
    and "drv_begin e bme1 BMX_ADDRESS_1 \<Longrightarrow> BMX_1_type (bmx_initialize_1 e s) = BMX_TYPE_BME280"
    and "\<not> drv_begin e bme1 BMX_ADDRESS_1 \<Longrightarrow> drv_begin e bm31 BMX_ADDRESS_1 \<Longrightarrow>
          BMX_1_type (bmx_initialize_1 e s) = BMX_TYPE_BMP390"
    and "SystemStatusBits (bmx_initialize_1 e s) =
          (if drv_begin e bme1 BMX_ADDRESS_1 \<or> drv_begin e bm31 BMX_ADDRESS_1
           then SystemStatusBits s else SystemStatusBits s OR SSB_BMX_1)"
  using assms
  by (simp_all add: bmx_initialize_1_def Let_def case_prod_unfold call_begin_def new_calls_def
        BMP280_CHIP_ID_def BME280_BMP390_CHIP_ID_def)

lemma bmx_initialize_2_chip_id:
  "BMX_2_chip_id (bmx_initialize_2 e s) = fst (get_Bosch_ChipID e BMX_ADDRESS_2 s)"
  by (simp add: bmx_initialize_2_def Let_def case_prod_unfold call_begin_def)

lemma bmx_initialize_2_BMP280:
  assumes "fst (get_Bosch_ChipID e BMX_ADDRESS_2 s) = BMP280_CHIP_ID"
  shows "new_calls s (bmx_initialize_2 e s) = [(bmp1, BMX_ADDRESS_2)]"
    and "BMX_2_exists (bmx_initialize_2 e s) = drv_begin e bmp1 BMX_ADDRESS_2"
    and "drv_begin e bmp1 BMX_ADDRESS_2 \<Longrightarrow> BMX_2_type (bmx_initialize_2 e s) = BMX_TYPE_BMP280"
    and "SystemStatusBits (bmx_initialize_2 e s) =
          (if drv_begin e bmp1 BMX_ADDRESS_2 then SystemStatusBits s
           else SystemStatusBits s OR SSB_BMX_2)"
  using assms
  by (simp_all add: bmx_initialize_2_def Let_def case_prod_unfold call_begin_def new_calls_def)

lemma bmx_initialize_2_BME280_BMP390:
  assumes "fst (get_Bosch_ChipID e BMX_ADDRESS_2 s) = BME280_BMP390_CHIP_ID"
  shows "new_calls s (bmx_initialize_2 e s) =
          (if drv_begin e bme2 BMX_ADDRESS_2 then [(bme2, BMX_ADDRESS_2)]
           else [(bme2, BMX_ADDRESS_2), (bm31, BMX_ADDRESS_2)])"
    and "BMX_2_exists (bmx_initialize_2 e s) =
          (drv_begin e bme2 BMX_ADDRESS_2 \<or> drv_begin e bm31 BMX_ADDRESS_2)"
    and "drv_begin e bme2 BMX_ADDRESS_2 \<Longrightarrow> BMX_2_type (bmx_initialize_2 e s) = BMX_TYPE_BME280"
    and "\<not> drv_begin e bme2 BMX_ADDRESS_2 \<Longrightarrow> drv_begin e bm31 BMX_ADDRESS_2 \<Longrightarrow>
          BMX_2_type (bmx_initialize_2 e s) = BMX_TYPE_BMP390"
    and "SystemStatusBits (bmx_initialize_2 e s) =
          (if drv_begin e bme2 BMX_ADDRESS_2 \<or> drv_begin e bm31 BMX_ADDRESS_2
           then SystemStatusBits s else SystemStatusBits s OR SSB_BMX_2)"
  using assms
  by (simp_all add: bmx_initialize_2_def Let_def case_prod_unfold call_begin_def new_calls_def
        BMP280_CHIP_ID_def BME280_BMP390_CHIP_ID_def)

lemma probe_stage_primary:
  assumes "i2c_select e a r = 0" "i2c_requestFrom e a r \<noteq> 0"
    "i2c_read e a r = BMP280_CHIP_ID \<or> i2c_read e a r = BMP388_CHIP_ID \<or>
     i2c_read e a r = BME280_BMP390_CHIP_ID"
  shows "fst (probe_stage e a r s) = Some (i2c_read e a r)"
  using assms by (auto simp add: probe_stage_def Let_def)

lemma get_Bosch_ChipID_primary:
  assumes "i2c_select e a 0 = 0" "i2c_requestFrom e a 0 \<noteq> 0"
    "i2c_read e a 0 = BMP280_CHIP_ID \<or> i2c_read e a 0 = BMP388_CHIP_ID \<or>
     i2c_read e a 0 = BME280_BMP390_CHIP_ID"
  shows "fst (get_Bosch_ChipID e a s) = i2c_read e a 0"
  using probe_stage_primary [OF assms, of "Output ''get_Bosch_ChipID()'' s"]
  by (simp add: get_Bosch_ChipID_def Let_def case_prod_unfold)


text \<open>
  C3. \<open>get_Bosch_ChipID\<close> returns the identity byte of the first probe stage when that
  stage reads \<open>0x58\<close> or \<open>0x60\<close>, and \<open>bmx_initialize\<close> stores what it returns in the
  slot's \<open>chip_id\<close>. With \<open>0x58\<close> the one initialisation attempted is that of the BMP280
  driver, and the slot's type becomes BMP280 when it succeeds. With \<open>0x60\<close> the BME280
  driver is tried first and the BMP3XX driver only after the BME280 driver has failed;
  the type is BME280 or BMP390 accordingly, and when both fail the slot's \<open>exists\<close> flag
  is false and its fault bit is set in \<open>SystemStatusBits\<close>. (For the second slot the
  BMP280 and BMP3XX objects initialised are \<open>bmp1\<close> and \<open>bm31\<close>, as the source has it.)
\<close>

theorem bmx_initialize_handshakes:
  "(i2c_select e a 0 = 0 \<and> i2c_requestFrom e a 0 \<noteq> 0 \<and>
      (i2c_read e a 0 = BMP280_CHIP_ID \<or> i2c_read e a 0 = BME280_BMP390_CHIP_ID) \<longrightarrow>
      fst (get_Bosch_ChipID e a s) = i2c_read e a 0) \<and>
   BMX_1_chip_id (bmx_initialize_1 e s) = fst (get_Bosch_ChipID e BMX_ADDRESS_1 s) \<and>
   BMX_2_chip_id (bmx_initialize_2 e s) = fst (get_Bosch_ChipID e BMX_ADDRESS_2 s) \<and>
   (fst (get_Bosch_ChipID e BMX_ADDRESS_1 s) = BMP280_CHIP_ID \<longrightarrow>
      new_calls s (bmx_initialize_1 e s) = [(bmp1, BMX_ADDRESS_1)] \<and>
      BMX_1_exists (bmx_initialize_1 e s) = drv_begin e bmp1 BMX_ADDRESS_1 \<and>
      (drv_begin e bmp1 BMX_ADDRESS_1 \<longrightarrow>
         BMX_1_type (bmx_initialize_1 e s) = BMX_TYPE_BMP280) \<and>
      SystemStatusBits (bmx_initialize_1 e s) =
        (if drv_begin e bmp1 BMX_ADDRESS_1 then SystemStatusBits s
         else SystemStatusBits s OR SSB_BMX_1)) \<and>
   (fst (get_Bosch_ChipID e BMX_ADDRESS_1 s) = BME280_BMP390_CHIP_ID \<longrightarrow>
      new_calls s (bmx_initialize_1 e s) =
        (if drv_begin e bme1 BMX_ADDRESS_1 then [(bme1, BMX_ADDRESS_1)]
         else [(bme1, BMX_ADDRESS_1), (bm31, BMX_ADDRESS_1)]) \<and>
      BMX_1_exists (bmx_initialize_1 e s) =
        (drv_begin e bme1 BMX_ADDRESS_1 \<or> drv_begin e bm31 BMX_ADDRESS_1) \<and>
      (drv_begin e bme1 BMX_ADDRESS_1 \<longrightarrow>
         BMX_1_type (bmx_initialize_1 e s) = BMX_TYPE_BME280) \<and>
      (\<not> drv_begin e bme1 BMX_ADDRESS_1 \<and> drv_begin e bm31 BMX_ADDRESS_1 \<longrightarrow>
         BMX_1_type (bmx_initialize_1 e s) = BMX_TYPE_BMP390) \<and>
      SystemStatusBits (bmx_initialize_1 e s) =
        (if drv_begin e bme1 BMX_ADDRESS_1 \<or> drv_begin e bm31 BMX_ADDRESS_1
         then SystemStatusBits s else SystemStatusBits s OR SSB_BMX_1)) \<and>
   (fst (get_Bosch_ChipID e BMX_ADDRESS_2 s) = BMP280_CHIP_ID \<longrightarrow>
      new_calls s (bmx_initialize_2 e s) = [(bmp1, BMX_ADDRESS_2)] \<and>
      BMX_2_exists (bmx_initialize_2 e s) = drv_begin e bmp1 BMX_ADDRESS_2 \<and>
      (drv_begin e bmp1 BMX_ADDRESS_2 \<longrightarrow>
         BMX_2_type (bmx_initialize_2 e s) = BMX_TYPE_BMP280) \<and>
      SystemStatusBits (bmx_initialize_2 e s) =
        (if drv_begin e bmp1 BMX_ADDRESS_2 then SystemStatusBits s
         else SystemStatusBits s OR SSB_BMX_2)) \<and>
   (fst (get_Bosch_ChipID e BMX_ADDRESS_2 s) = BME280_BMP390_CHIP_ID \<longrightarrow>
      new_calls s (bmx_initialize_2 e s) =
        (if drv_begin e bme2 BMX_ADDRESS_2 then [(bme2, BMX_ADDRESS_2)]
         else [(bme2, BMX_ADDRESS_2), (bm31, BMX_ADDRESS_2)]) \<and>
      BMX_2_exists (bmx_initialize_2 e s) =
        (drv_begin e bme2 BMX_ADDRESS_2 \<or> drv_begin e bm31 BMX_ADDRESS_2) \<and>
      (drv_begin e bme2 BMX_ADDRESS_2 \<longrightarrow>
         BMX_2_type (bmx_initialize_2 e s) = BMX_TYPE_BME280) \<and>
      (\<not> drv_begin e bme2 BMX_ADDRESS_2 \<and> drv_begin e bm31 BMX_ADDRESS_2 \<longrightarrow>
         BMX_2_type (bmx_initialize_2 e s) = BMX_TYPE_BMP390) \<and>
      SystemStatusBits (bmx_initialize_2 e s) =
        (if drv_begin e bme2 BMX_ADDRESS_2 \<or> drv_begin e bm31 BMX_ADDRESS_2
         then SystemStatusBits s else SystemStatusBits s OR SSB_BMX_2))"
proof -
  have p: "i2c_select e a 0 = 0 \<and> i2c_requestFrom e a 0 \<noteq> 0 \<and>
      (i2c_read e a 0 = BMP280_CHIP_ID \<or> i2c_read e a 0 = BME280_BMP390_CHIP_ID) \<longrightarrow>
      fst (get_Bosch_ChipID e a s) = i2c_read e a 0"
    using get_Bosch_ChipID_primary [of e a s] by blast
  show ?thesis
    using p
    by (simp add: bmx_initialize_1_chip_id bmx_initialize_2_chip_id
          bmx_initialize_1_BMP280 bmx_initialize_2_BMP280
          bmx_initialize_1_BME280_BMP390 bmx_initialize_2_BME280_BMP390)
qed

lemma boot_probe:
  "fst (get_Bosch_ChipID boot_env BMX_ADDRESS_1 s) = BMP280_CHIP_ID"
  "fst (get_Bosch_ChipID boot_env BMX_ADDRESS_2 s) = BME280_BMP390_CHIP_ID"
  "fst (get_Bosch_ChipID dead_boot_env BMX_ADDRESS_1 s) = BME280_BMP390_CHIP_ID"
  "fst (get_Bosch_ChipID dead_boot_env BMX_ADDRESS_2 s) = BMP280_CHIP_ID"
  by (simp_all add: get_Bosch_ChipID_primary boot_env_def dead_boot_env_def bench_env_def
        BMX_ADDRESS_1_def BMX_ADDRESS_2_def BMP280_CHIP_ID_def BME280_BMP390_CHIP_ID_def)

theorem bmx_initialize_handshakes_witness:
  "i2c_select boot_env BMX_ADDRESS_1 0 = 0 \<and> i2c_requestFrom boot_env BMX_ADDRESS_1 0 \<noteq> 0 \<and>
   i2c_read boot_env BMX_ADDRESS_1 0 = BMP280_CHIP_ID \<and>
   fst (get_Bosch_ChipID boot_env BMX_ADDRESS_1 boot_state) = BMP280_CHIP_ID \<and>
   new_calls boot_state (bmx_initialize_1 boot_env boot_state) = [(bmp1, BMX_ADDRESS_1)] \<and>
   BMX_1_exists (bmx_initialize_1 boot_env boot_state) \<and>
   BMX_1_type (bmx_initialize_1 boot_env boot_state) = BMX_TYPE_BMP280 \<and>
   fst (get_Bosch_ChipID boot_env BMX_ADDRESS_2 boot_state) = BME280_BMP390_CHIP_ID \<and>
   new_calls boot_state (bmx_initialize_2 boot_env boot_state) =
     [(bme2, BMX_ADDRESS_2), (bm31, BMX_ADDRESS_2)] \<and>
   BMX_2_exists (bmx_initialize_2 boot_env boot_state) \<and>
   BMX_2_type (bmx_initialize_2 boot_env boot_state) = BMX_TYPE_BMP390 \<and>
   fst (get_Bosch_ChipID dead_boot_env BMX_ADDRESS_1 boot_state) = BME280_BMP390_CHIP_ID \<and>
   new_calls boot_state (bmx_initialize_1 dead_boot_env boot_state) =
     [(bme1, BMX_ADDRESS_1), (bm31, BMX_ADDRESS_1)] \<and>
   \<not> BMX_1_exists (bmx_initialize_1 dead_boot_env boot_state) \<and>
   SystemStatusBits (bmx_initialize_1 dead_boot_env boot_state) = SSB_PWRON OR SSB_BMX_1 \<and>
   fst (get_Bosch_ChipID dead_boot_env BMX_ADDRESS_2 boot_state) = BMP280_CHIP_ID \<and>
   \<not> BMX_2_exists (bmx_initialize_2 dead_boot_env boot_state) \<and>
   SystemStatusBits (bmx_initialize_2 dead_boot_env boot_state) = SSB_PWRON OR SSB_BMX_2"
proof -
  have b: "drv_begin boot_env bmp1 BMX_ADDRESS_1" "\<not> drv_begin boot_env bme2 BMX_ADDRESS_2"
      "drv_begin boot_env bm31 BMX_ADDRESS_2" "\<And>d a. \<not> drv_begin dead_boot_env d a"
    by (simp_all add: boot_env_def dead_boot_env_def)
  have i: "i2c_select boot_env BMX_ADDRESS_1 0 = 0" "i2c_requestFrom boot_env BMX_ADDRESS_1 0 \<noteq> 0"
      "i2c_read boot_env BMX_ADDRESS_1 0 = BMP280_CHIP_ID"
    by (simp_all add: boot_env_def BMP280_CHIP_ID_def)
  have bits: "SystemStatusBits boot_state = SSB_PWRON"
    by (simp add: boot_state_def)
  show ?thesis
    using bmx_initialize_handshakes [of boot_env BMX_ADDRESS_1 boot_state]
      bmx_initialize_handshakes [of dead_boot_env BMX_ADDRESS_1 boot_state]
      boot_probe [of boot_state] b i bits
    by simp
qed

section \<open>The one-wire probe\<close>

text \<open>
  The comparison \<open>ds_reading != QC_ERR_T\<close> is between a \<open>float\<close> and a \<open>double\<close>: the
  sentinel stored in the \<open>float\<close> differs from the \<open>double\<close> constant, so the comparison
  holds after every gate.
\<close>

lemma qc_gate_T_ne_ERR: "fne (qc_gate QC_MIN_T QC_MAX_T QC_ERR_T t) QC_ERR_T"
proof (cases "in_envelope QC_MIN_T QC_MAX_T t")
  case True
  then obtain x where "t = Fin x" "QC_MIN_T \<le> x"
    by (cases t) (auto simp: in_envelope_def)
  then show ?thesis using True
    by (simp add: qc_gate_cases fne_def QC_MIN_T_val QC_ERR_T_val)
next
  case False
  have "f32 QC_ERR_T \<noteq> QC_ERR_T"
    unfolding f32_QC_ERR_T by (simp add: QC_ERR_T_val)
  with False show ?thesis
    by (simp add: qc_gate_cases fne_def)
qed

lemma getDSTempByAddr_eq:
  "getDSTempByAddr e delayms s =
     (if ds_crc_ok e delayms
      then s\<lparr>ds_reading := qc_gate QC_MIN_T QC_MAX_T QC_ERR_T (ds_temp (ds_scratchpad e delayms)),
             ds_valid := True\<rparr>
      else s\<lparr>ds_reading := Fin 0, ds_valid := False\<rparr>)"
  by (simp add: getDSTempByAddr_def ds_crc_ok_def Let_def qc_gate_T_ne_ERR)

lemma getDSTemp_upd:
  "getDSTemp e s =
     s\<lparr>ds_reading := ds_value e, ds_valid := (ds_crc_ok e 250 \<or> ds_crc_ok e 750)\<rparr>"
  by (simp add: getDSTemp_def getDSTempByAddr_eq Let_def ds_value_def)

section \<open>Assembling the record\<close>

lemma OBS_build_upd:
  "OBS_build e v s =
     s\<lparr>ds_reading := (if ds_found s then ds_value e else ds_reading s),
       ds_valid := (if ds_found s then ds_crc_ok e 250 \<or> ds_crc_ok e 750 else ds_valid s),
       msgbuf := obs_text e v s\<rparr>"
  by (simp add: OBS_build_def append_msgbuf_def getDSTemp_upd obs_text_def Let_def)

lemma obs_text_read:
  assumes "timestamp s' = iso_timestamp (rtc_now e)" "BMX_1_exists s' = BMX_1_exists s"
    "BMX_2_exists s' = BMX_2_exists s" "MCP_1_exists s' = MCP_1_exists s"
    "ds_found s' = ds_found s" "SystemStatusBits s' = SystemStatusBits s"
  shows "obs_text e (OBS_read e s) s' = obs_record e s"
  using assms by (simp add: obs_text_def obs_record_def OBS_read_def)

lemma obs_record_Output [simp]: "obs_record e (Output str s) = obs_record e s"
  by (simp add: obs_record_def)

lemma msgbuf_obs_assembled [simp]: "msgbuf (obs_assembled e s) = obs_record e s"
  by (simp add: obs_assembled_def)

lemma OBS_Do_nolog:
  assumes "RTC_valid s"
  shows "OBS_Do e False s =
     Serial_write (obs_record e s) (Output ''OBS_Do()'' (obs_assembled e s))"
proof -
  let ?s0 = "Output ''OBS_Do()'' s"
  have otx: "obs_text e (OBS_read e ?s0) (rtc_timestamp e ?s0) = obs_record e ?s0"
    by (rule obs_text_read) (simp_all add: rtc_timestamp_def Let_def)
  have mid: "OBS_build e (OBS_read e ?s0) (rtc_timestamp e ?s0) =
       Output ''OBS_Do()'' (obs_assembled e s)"
    unfolding OBS_build_upd otx
    by (rule state.equality)
       (simp_all add: obs_assembled_def rtc_timestamp_def Let_def Output_logs)
  show ?thesis
    using assms by (simp add: OBS_Do_def Let_def mid)
qed

lemma OBS_Do_log:
  assumes "RTC_valid s"
  shows "OBS_Do e True s =
     Serial_write (obs_record e s)
       (SD_LogObservation e (obs_record e s)
          (Output (iso_timestamp (rtc_now e)) (Output ''OBS_Do()'' (obs_assembled e s))))"
proof -
  let ?s0 = "Output ''OBS_Do()'' s"
  let ?s1 = "Output (timestamp (rtc_timestamp e ?s0)) (rtc_timestamp e ?s0)"
  have otx: "obs_text e (OBS_read e ?s0) ?s1 = obs_record e ?s0"
    by (rule obs_text_read) (simp_all add: rtc_timestamp_def Let_def)
  have mid: "OBS_build e (OBS_read e ?s0) ?s1 =
       Output (iso_timestamp (rtc_now e)) (Output ''OBS_Do()'' (obs_assembled e s))"
    unfolding OBS_build_upd otx
    by (rule state.equality)
       (simp_all add: obs_assembled_def rtc_timestamp_def Let_def Output_logs)
  show ?thesis
    using assms by (simp add: OBS_Do_def Let_def mid)
qed

lemma msgbuf_OBS_Do: "RTC_valid s \<Longrightarrow> msgbuf (OBS_Do e log_obs s) = obs_record e s"
  by (cases log_obs) (simp_all add: OBS_Do_nolog OBS_Do_log)

lemma OBS_Do_fields [simp]:
  "JustPoweredOn (OBS_Do e log_obs s) = JustPoweredOn s"
  "RTC_valid (OBS_Do e log_obs s) = RTC_valid s"
  "SD_exists (OBS_Do e log_obs s) = SD_exists s"
  "SerialConsoleEnabled (OBS_Do e log_obs s) = SerialConsoleEnabled s"
  "DisplayEnabled (OBS_Do e log_obs s) = DisplayEnabled s"
  "BMX_1_exists (OBS_Do e log_obs s) = BMX_1_exists s"
  "BMX_2_exists (OBS_Do e log_obs s) = BMX_2_exists s"
  "begin_calls (OBS_Do e log_obs s) = begin_calls s"
  by (cases "RTC_valid s"; cases log_obs;
      simp add: OBS_Do_nolog OBS_Do_log obs_assembled_def; simp add: OBS_Do_def)+

lemma OBS_Do_log_card:
  "RTC_valid s \<Longrightarrow>
   sd_card (OBS_Do e True s) =
     (if SD_exists s \<and> SD_open e (SD_logfile_name (rtc_now e))
      then sd_card s @ [(SD_logfile_name (rtc_now e), obs_record e s)] else sd_card s)"
  by (simp add: OBS_Do_log SD_LogObservation_card obs_assembled_def)

lemma OBS_Do_log_bits:
  "RTC_valid s \<Longrightarrow>
   SystemStatusBits (OBS_Do e True s) =
     (if SD_exists s
      then if SD_open e (SD_logfile_name (rtc_now e))
           then SystemStatusBits s AND NOT SSB_SD else SystemStatusBits s OR SSB_SD
      else SystemStatusBits s)"
  by (simp add: OBS_Do_log SD_LogObservation_bits obs_assembled_def)

section \<open>Clearing the startup bits\<close>

lemma JPO_ClearBits_eq:
  "JPO_ClearBits s =
     (if JustPoweredOn s
      then s\<lparr>JustPoweredOn := False,
             SystemStatusBits := SystemStatusBits s AND NOT startup_bits\<rparr>
      else s)"
  by (simp add: JPO_ClearBits_def startup_bits_def Let_def bit_eq_iff bit_simps)

lemma startup_bits_push:
  "startup_bits =
     1 OR push_bit 3 1 OR push_bit 7 1 OR push_bit 8 1 OR push_bit 11 1 OR push_bit 12 1"
  by (simp add: startup_bits_def SSB_PWRON_def SSB_OLED_def SSB_BMX_1_def SSB_BMX_2_def
        SSB_MCP_1_def SSB_DS_1_def)

lemma startup_bits_bit: "bit startup_bits n = (n \<in> {0, 3, 7, 8, 11, 12})"
proof -
  have "bit (1 OR push_bit 3 1 OR push_bit 7 1 OR push_bit 8 1 OR push_bit 11 1 OR
             push_bit 12 1 :: uint) n = (n \<in> {0, 3, 7, 8, 11, 12})"
    apply (simp only: bit_or_iff bit_push_bit_iff bit_1_iff)
    apply (simp only: possible_bit_word)
    apply auto
    done
  then show ?thesis by (simp only: startup_bits_push)
qed

lemma JPO_ClearBits_bit:
  "JustPoweredOn s \<Longrightarrow>
   bit (SystemStatusBits (JPO_ClearBits s)) n =
     (bit (SystemStatusBits s) n \<and> n \<notin> {0, 3, 7, 8, 11, 12})"
  by (auto simp add: JPO_ClearBits_eq bit_simps startup_bits_bit dest: bit_imp_le_length)

lemma loop_normal_eq:
  "loop_normal e s =
     Output ''Wakeup'' (Output ''Going to Sleep''
       (JPO_ClearBits (OBS_Do e True (I2C_Check_Sensors e s))))"
  by (simp add: loop_normal_def Let_def)

lemma loop_normal_fields:
  "JustPoweredOn (loop_normal e s) = False"
  "sd_card (loop_normal e s) = sd_card (OBS_Do e True (I2C_Check_Sensors e s))"
  "SystemStatusBits (loop_normal e s) =
     (if JustPoweredOn s
      then SystemStatusBits (OBS_Do e True (I2C_Check_Sensors e s)) AND NOT startup_bits
      else SystemStatusBits (OBS_Do e True (I2C_Check_Sensors e s)))"
  by (simp_all add: loop_normal_eq JPO_ClearBits_eq)

text \<open>
  C5, as the code has it. The first call of \<open>JPO_ClearBits\<close> made while \<open>JustPoweredOn\<close>
  is set clears that flag and exactly the six bits \<open>SSB_PWRON\<close>, \<open>SSB_OLED\<close>,
  \<open>SSB_BMX_1\<close>, \<open>SSB_BMX_2\<close>, \<open>SSB_MCP_1\<close> and \<open>SSB_DS_1\<close> (bits 0, 3, 7, 8, 11 and 12),
  leaving every other bit as it was; a call made with the flag clear changes nothing, so
  the clearing happens at most once. In the normal branch of \<open>loop\<close> the call follows
  \<open>I2C_Check_Sensors\<close> and \<open>OBS_Do(true)\<close>, neither of which touches the flag, and it is
  made whether or not that observation reached the SD card.
\<close>

theorem JPO_ClearBits_once:
  "(JustPoweredOn s \<longrightarrow>
      JPO_ClearBits s =
        s\<lparr>JustPoweredOn := False,
          SystemStatusBits :=
            SystemStatusBits s AND
            NOT (SSB_PWRON OR SSB_OLED OR SSB_BMX_1 OR SSB_BMX_2 OR SSB_MCP_1 OR SSB_DS_1)\<rparr> \<and>
      (\<forall>n. bit (SystemStatusBits (JPO_ClearBits s)) n =
             (bit (SystemStatusBits s) n \<and> n \<notin> {0, 3, 7, 8, 11, 12}))) \<and>
   (\<not> JustPoweredOn s \<longrightarrow> JPO_ClearBits s = s) \<and>
   \<not> JustPoweredOn (JPO_ClearBits s) \<and>
   JPO_ClearBits (JPO_ClearBits s) = JPO_ClearBits s \<and>
   JustPoweredOn (OBS_Do e True (I2C_Check_Sensors e s)) = JustPoweredOn s \<and>
   loop_normal e s =
     Output ''Wakeup'' (Output ''Going to Sleep''
       (JPO_ClearBits (OBS_Do e True (I2C_Check_Sensors e s)))) \<and>
   \<not> JustPoweredOn (loop_normal e s) \<and>
   (JustPoweredOn s \<longrightarrow>
      SystemStatusBits (loop_normal e s) =
        SystemStatusBits (OBS_Do e True (I2C_Check_Sensors e s)) AND
        NOT (SSB_PWRON OR SSB_OLED OR SSB_BMX_1 OR SSB_BMX_2 OR SSB_MCP_1 OR SSB_DS_1))"
proof -
  have sb: "SSB_PWRON OR SSB_OLED OR SSB_BMX_1 OR SSB_BMX_2 OR SSB_MCP_1 OR SSB_DS_1 =
      startup_bits"
    by (simp add: startup_bits_def)
  have a: "JustPoweredOn s \<longrightarrow>
      JPO_ClearBits s =
        s\<lparr>JustPoweredOn := False,
          SystemStatusBits := SystemStatusBits s AND NOT startup_bits\<rparr> \<and>
      (\<forall>n. bit (SystemStatusBits (JPO_ClearBits s)) n =
             (bit (SystemStatusBits s) n \<and> n \<notin> {0, 3, 7, 8, 11, 12}))"
    using JPO_ClearBits_bit [of s] by (simp add: JPO_ClearBits_eq)
  have b: "\<not> JustPoweredOn s \<longrightarrow> JPO_ClearBits s = s"
    by (simp add: JPO_ClearBits_eq)
  have c: "\<not> JustPoweredOn (JPO_ClearBits s)"
    by (simp add: JPO_ClearBits_eq)
  have d: "JPO_ClearBits (JPO_ClearBits s) = JPO_ClearBits s"
    by (simp add: JPO_ClearBits_eq)
  have f: "JustPoweredOn (OBS_Do e True (I2C_Check_Sensors e s)) = JustPoweredOn s"
    by simp
  have g: "\<not> JustPoweredOn (loop_normal e s)"
    by (simp add: loop_normal_fields)
  have h: "JustPoweredOn s \<longrightarrow>
      SystemStatusBits (loop_normal e s) =
        SystemStatusBits (OBS_Do e True (I2C_Check_Sensors e s)) AND NOT startup_bits"
    by (simp add: loop_normal_fields)
  show ?thesis
    unfolding sb using a b c d f loop_normal_eq [of e s] g h by (intro conjI)
qed

lemma nosd_loop:
  "sd_card (OBS_Do bench_env True (I2C_Check_Sensors bench_env nosd_state)) = []"
  "SystemStatusBits (OBS_Do bench_env True (I2C_Check_Sensors bench_env nosd_state)) =
     SSB_PWRON OR SSB_SD"
proof -
  have v: "RTC_valid (I2C_Check_Sensors bench_env nosd_state)"
    "\<not> SD_exists (I2C_Check_Sensors bench_env nosd_state)"
    "sd_card (I2C_Check_Sensors bench_env nosd_state) = []"
    by (simp_all add: nosd_state_def bench_state_def boot_state_def)
  have b: "SystemStatusBits (I2C_Check_Sensors bench_env nosd_state) = SSB_PWRON OR SSB_SD"
    by (simp add: I2C_Check_Sensors_def I2C_Check_BMX_1_effect I2C_Check_BMX_2_effect
          I2C_Device_Exist_def bench_env_def nosd_state_def bench_state_def boot_state_def
          BMX_ADDRESS_1_def BMX_ADDRESS_2_def)
  show "sd_card (OBS_Do bench_env True (I2C_Check_Sensors bench_env nosd_state)) = []"
    using v by (simp add: OBS_Do_log_card)
  show "SystemStatusBits (OBS_Do bench_env True (I2C_Check_Sensors bench_env nosd_state)) =
     SSB_PWRON OR SSB_SD"
    using v b by (simp add: OBS_Do_log_bits)
qed

text \<open>
  C5 as stated fails: with a valid clock and no SD card, the first pass of the normal
  branch writes nothing to the card and still clears the power-on bit and the flag.
\<close>

theorem JPO_ClearBits_unpersisted_counterexample:
  "RTC_valid nosd_state \<and> JustPoweredOn nosd_state \<and>
   SystemStatusBits nosd_state = SSB_PWRON OR SSB_SD \<and>
   sd_card nosd_state = [] \<and>
   sd_card (loop_normal bench_env nosd_state) = [] \<and>
   \<not> JustPoweredOn (loop_normal bench_env nosd_state) \<and>
   SystemStatusBits (loop_normal bench_env nosd_state) = SSB_SD"
proof -
  have s: "RTC_valid nosd_state" "JustPoweredOn nosd_state"
    "SystemStatusBits nosd_state = SSB_PWRON OR SSB_SD" "sd_card nosd_state = []"
    by (simp_all add: nosd_state_def bench_state_def boot_state_def)
  have m: "(SSB_PWRON OR SSB_SD) AND NOT startup_bits = SSB_SD"
    by (simp add: startup_bits_def SSB_PWRON_def SSB_OLED_def SSB_BMX_1_def SSB_BMX_2_def
          SSB_MCP_1_def SSB_DS_1_def SSB_SD_def)
  show ?thesis
    using s m by (simp add: loop_normal_fields nosd_loop)
qed

theorem JPO_ClearBits_once_witness:
  "JustPoweredOn nosd_state \<and>
   SystemStatusBits nosd_state = SSB_PWRON OR SSB_SD \<and>
   SystemStatusBits (JPO_ClearBits nosd_state) = SSB_SD \<and>
   \<not> JustPoweredOn (JPO_ClearBits nosd_state) \<and>
   JPO_ClearBits (JPO_ClearBits nosd_state) = JPO_ClearBits nosd_state \<and>
   \<not> JustPoweredOn bench_state \<and> JPO_ClearBits bench_state = bench_state \<and>
   SystemStatusBits (loop_normal bench_env nosd_state) = SSB_SD"
proof -
  have s: "JustPoweredOn nosd_state" "\<not> JustPoweredOn bench_state"
    "SystemStatusBits nosd_state = SSB_PWRON OR SSB_SD"
    by (simp_all add: nosd_state_def bench_state_def boot_state_def)
  have m: "(SSB_PWRON OR SSB_SD) AND
      NOT (SSB_PWRON OR SSB_OLED OR SSB_BMX_1 OR SSB_BMX_2 OR SSB_MCP_1 OR SSB_DS_1) = SSB_SD"
    by (simp add: SSB_PWRON_def SSB_OLED_def SSB_BMX_1_def SSB_BMX_2_def
          SSB_MCP_1_def SSB_DS_1_def SSB_SD_def)
  note t1 = JPO_ClearBits_once [of nosd_state bench_env]
  note t2 = JPO_ClearBits_once [of bench_state bench_env]
  have j: "JPO_ClearBits nosd_state =
      nosd_state\<lparr>JustPoweredOn := False,
        SystemStatusBits :=
          SystemStatusBits nosd_state AND
          NOT (SSB_PWRON OR SSB_OLED OR SSB_BMX_1 OR SSB_BMX_2 OR SSB_MCP_1 OR SSB_DS_1)\<rparr>"
    using t1 s(1) by blast
  have j1: "SystemStatusBits (JPO_ClearBits nosd_state) = SSB_SD"
    unfolding j using s(3) m by simp
  have j2: "\<not> JustPoweredOn (JPO_ClearBits nosd_state)"
    "JPO_ClearBits (JPO_ClearBits nosd_state) = JPO_ClearBits nosd_state"
    using t1 by blast+
  have j3: "JPO_ClearBits bench_state = bench_state"
    using t2 s(2) by blast
  have "SystemStatusBits (loop_normal bench_env nosd_state) =
      SystemStatusBits (OBS_Do bench_env True (I2C_Check_Sensors bench_env nosd_state)) AND
      NOT (SSB_PWRON OR SSB_OLED OR SSB_BMX_1 OR SSB_BMX_2 OR SSB_MCP_1 OR SSB_DS_1)"
    using t1 s(1) by blast
  then have j4: "SystemStatusBits (loop_normal bench_env nosd_state) = SSB_SD"
    using m by (simp only: nosd_loop)
  from s(1) s(3) j1 j2 s(2) j3 j4 show ?thesis
    by (intro conjI)
qed

section \<open>Evaluating the formats\<close>

lemma replicate_numeral: "replicate (numeral k) x = x # replicate (pred_numeral k) x"
  by (simp add: numeral_eq_Suc)

lemmas float_eval = f32_def f64_def fround_def ilog2_def pow2_def round_even_def Let_def
  compute_floorlog fdiv32_def fmul32_def c_int_def int_part_def frac_part_def
  smod_int_alt_def sgn_if

lemmas fmt_eval = fmt_d_def fmt_0d_def fmt_wd_def fmt_u_def fmt_02X_def pad_left_def
  digit_char_def replicate_numeral

lemma QC_limits:
  "QC_MIN_P = 300" "QC_MAX_P = 1100" "QC_MIN_RH = 0" "QC_MAX_RH = 100"
  by (simp_all add: QC_MIN_P_def QC_MAX_P_def QC_MIN_RH_def QC_MAX_RH_def float_eval)

lemma vbat_get_575: "analogRead_VBAT e = 575 \<Longrightarrow> vbat_get e = Fin (3795 / 1024)"
  by (simp add: vbat_get_def float_eval)

lemma sort_replicate: "sort (replicate n (x::'a::linorder)) = replicate n x"
  by (rule sorted_sort_id) (simp add: sorted_replicate)

lemma sg_window_const: "sg_window (\<lambda>i. c) = replicate 60 (word_of_int c)"
  by (simp add: sg_window_def SG_BUCKETS_def map_replicate_const)

lemma s_gauge_median_M0_sort: "s_gauge_median_M0 rd = sort (sg_window rd) ! 29"
  unfolding s_gauge_median_M0_def mysort_sg_window
  by (simp add: sg_median_index_def SG_BUCKETS_def)

lemma s_gauge_median_M0_const: "s_gauge_median_M0 (\<lambda>i. c) = word_of_int c"
  unfolding s_gauge_median_M0_sort sg_window_const sort_replicate by simp

lemma s_gauge_median_scaled:
  "s_gauge_median cf rd =
     (if cf \<noteq> 0 then s_gauge_median_M0 rd * 5 else s_gauge_median_M0 rd * 10)"
  by (simp add: s_gauge_median_def s_gauge_median_M0_def Let_def)

lemma bmx_read_BME280:
  "chip_id = BME280_BMP390_CHIP_ID \<Longrightarrow> type = BMX_TYPE_BME280 \<Longrightarrow>
   bmx_read e bmp bme bm3 chip_id type =
     (fdiv32 (readPressure e bme) 100, readTemperature e bme, readHumidity e bme)"
  by (simp add: bmx_read_def Let_def BME280_BMP390_CHIP_ID_def BMP280_CHIP_ID_def
        BMX_TYPE_BME280_def BMX_TYPE_BMP390_def)

lemma bmx_gate_scenario:
  "bmx_gate (fdiv32 (Fin 101325) 100, Fin (45 / 2), Fin 45) =
     (Fin (4053 / 4), Fin (45 / 2), Fin 45)"
  by (simp add: bmx_gate_def qc_gate_cases in_envelope_def QC_limits QC_MIN_T_val QC_MAX_T_val
        float_eval)

lemma scenario_parts:
  "int_part (Fin (4053 / 4)) = 1013" "frac_part (Fin (4053 / 4)) = 25"
  "int_part (Fin (45 / 2)) = 22" "frac_part (Fin (45 / 2)) = 50"
  "int_part (Fin 45) = 45" "frac_part (Fin 45) = 0"
  "int_part (Fin (3795 / 1024)) = 3" "frac_part (Fin (3795 / 1024)) = 70"
  "int_part (Fin 0) = 0" "frac_part (Fin 0) = 0"
  by (simp_all add: float_eval)

lemma bmx_json_scenario:
  "bmx_json ''1'' (Fin (4053 / 4), Fin (45 / 2), Fin 45) =
     ''\"bp1\":1013.0025,\"bt1\":22.50,\"bh1\":45.00,''"
  by (simp add: bmx_json_def scenario_parts fmt_eval)

lemma tail_json_scenario: "tail_json (Fin (3795 / 1024)) 0 = ''\"bv\":3.70,\"hth\":0}''"
  by (simp add: tail_json_def scenario_parts fmt_eval)

lemma temp_json_zero: "temp_json ''dt1'' (Fin 0) = ''\"dt1\":0.0000,''"
  by (simp add: temp_json_def scenario_parts fmt_eval)

lemma bench_timestamp: "iso_timestamp (rtc_now bench_env) = ''2024-07-19T12:00:05''"
  by (simp add: iso_timestamp_def bench_env_def fmt_eval)

lemma bench_logfile: "SD_logfile_name (rtc_now bench_env) = ''/OBS/20240719.log''"
  by (simp add: SD_logfile_name_def SD_obsdir_def bench_env_def fmt_eval)

lemma head_json_bench:
  "head_json ''2024-07-19T12:00:05'' (sint (5120 :: uint)) =
     ''{\"at\":\"2024-07-19T12:00:05\",\"sg\":5120,''"
  "head_json ts (sint (2560 :: uint)) = ''{\"at\":\"'' @ ts @ ''\",\"sg\":2560,''"
  "head_json ts (sint (5120 :: uint)) = ''{\"at\":\"'' @ ts @ ''\",\"sg\":5120,''"
  "head_json ts 2560 = ''{\"at\":\"'' @ ts @ ''\",\"sg\":2560,''"
  "head_json ts 5120 = ''{\"at\":\"'' @ ts @ ''\",\"sg\":5120,''"
  by (simp_all add: head_json_def fmt_eval)


section \<open>The record of the bench scenario\<close>

lemma scenario_record_probe:
  assumes "BMX_1_exists s" "\<not> BMX_2_exists s" "\<not> MCP_1_exists s"
    "SystemStatusBits s = 0"
    "BMX_1_chip_id s = BME280_BMP390_CHIP_ID" "BMX_1_type s = BMX_TYPE_BME280"
    "s_gauge_median_M0 (analogRead_SGAUGE e) = 512"
    "readPressure e bme1 = Fin 101325" "readTemperature e bme1 = Fin (45 / 2)"
    "readHumidity e bme1 = Fin 45" "analogRead_VBAT e = 575"
  shows "obs_record e s =
     ''{\"at\":\"'' @ iso_timestamp (rtc_now e) @ ''\",\"sg\":'' @
     (if cf_ds_type s \<noteq> 0 then ''2560'' else ''5120'') @
     '',\"bp1\":1013.0025,\"bt1\":22.50,\"bh1\":45.00,'' @
     (if ds_found s then temp_json ''dt1'' (ds_value e) else []) @
     ''\"bv\":3.70,\"hth\":0}''"
proof -
  have sg: "s_gauge_median (cf_ds_type s) (analogRead_SGAUGE e) =
      (if cf_ds_type s \<noteq> 0 then 2560 else 5120)"
    by (simp add: s_gauge_median_scaled assms(7))
  have rd: "bmx_gate (bmx_read e bmp1 bme1 bm31 (BMX_1_chip_id s) (BMX_1_type s)) =
      (Fin (4053 / 4), Fin (45 / 2), Fin 45)"
    using bmx_read_BME280 [OF assms(5) assms(6), of e bmp1 bme1 bm31]
    by (simp add: assms(8-10) bmx_gate_scenario)
  have vb: "vbat_get e = Fin (3795 / 1024)"
    using assms(11) by (rule vbat_get_575)
  show ?thesis
    unfolding obs_record_def sg rd vb
    using assms(1-4)
    by (simp add: bmx_json_scenario tail_json_scenario head_json_bench)
qed

lemma scenario_record:
  assumes "BMX_1_exists s" "\<not> BMX_2_exists s" "\<not> MCP_1_exists s" "\<not> ds_found s"
    "SystemStatusBits s = 0"
    "BMX_1_chip_id s = BME280_BMP390_CHIP_ID" "BMX_1_type s = BMX_TYPE_BME280"
    "s_gauge_median_M0 (analogRead_SGAUGE e) = 512"
    "readPressure e bme1 = Fin 101325" "readTemperature e bme1 = Fin (45 / 2)"
    "readHumidity e bme1 = Fin 45" "analogRead_VBAT e = 575"
  shows "obs_record e s =
     ''{\"at\":\"'' @ iso_timestamp (rtc_now e) @ ''\",\"sg\":'' @
     (if cf_ds_type s \<noteq> 0 then ''2560'' else ''5120'') @
     '',\"bp1\":1013.0025,\"bt1\":22.50,\"bh1\":45.00,\"bv\":3.70,\"hth\":0}''"
  using scenario_record_probe [OF assms(1-3) assms(5-12)] assms(4) by simp

lemma bench_inputs:
  "RTC_valid bench_state" "BMX_1_exists bench_state" "\<not> BMX_2_exists bench_state"
  "\<not> MCP_1_exists bench_state" "\<not> ds_found bench_state"
  "SystemStatusBits bench_state = 0"
  "BMX_1_chip_id bench_state = BME280_BMP390_CHIP_ID"
  "BMX_1_type bench_state = BMX_TYPE_BME280"
  "cf_ds_type bench_state = 0"
  "readPressure bench_env bme1 = Fin 101325" "readTemperature bench_env bme1 = Fin (45 / 2)"
  "readHumidity bench_env bme1 = Fin 45" "analogRead_VBAT bench_env = 575"
  "s_gauge_median_M0 (analogRead_SGAUGE bench_env) = 512"
  by (simp_all add: bench_state_def boot_state_def bench_env_def s_gauge_median_M0_const)




section \<open>Persistence failure\<close>

lemma bmx_read_SD: "bmx_read (e\<lparr>SD_open := f\<rparr>) bmp bme bm3 c t = bmx_read e bmp bme bm3 c t"
  by (simp add: bmx_read_def Let_def)

lemma vbat_get_SD: "vbat_get (e\<lparr>SD_open := f\<rparr>) = vbat_get e"
  by (simp add: vbat_get_def)

lemma ds_value_SD: "ds_value (e\<lparr>SD_open := f\<rparr>) = ds_value e"
  by (simp add: ds_value_def ds_crc_ok_def ds_scratchpad_def)

lemma obs_record_SD [simp]:
  "obs_record (e\<lparr>SD_open := f\<rparr>) s = obs_record e s"
  "obs_record e (s\<lparr>SD_exists := b\<rparr>) = obs_record e s"
  by (simp_all add: obs_record_def bmx_read_SD vbat_get_SD ds_value_SD)

lemma SD_LogObservation_serial:
  "serial_out (SD_LogObservation e obs s) =
     (if SD_exists s \<and> RTC_valid s \<and> SerialConsoleEnabled s
      then serial_out s @
           [SD_logfile_name (now s),
            if SD_open e (SD_logfile_name (now s))
            then ''OBS Logged to SD'' else ''OBS Open Log Err'']
      else serial_out s)"
  by (simp add: SD_LogObservation_def Let_def Output_logs)

lemma OBS_Do_log_serial:
  assumes "RTC_valid s"
  shows "serial_out (OBS_Do e True s) =
     (if SerialConsoleEnabled s
      then serial_out s @ [''OBS_Do()'', iso_timestamp (rtc_now e)] @
           (if SD_exists s
            then [SD_logfile_name (rtc_now e),
                  if SD_open e (SD_logfile_name (rtc_now e))
                  then ''OBS Logged to SD'' else ''OBS Open Log Err'']
            else []) @
           [obs_record e s]
      else serial_out s)"
  using assms
  by (simp add: OBS_Do_log Serial_write_log SD_LogObservation_serial Output_logs
      obs_assembled_def)

lemma bench_record:
  "obs_record bench_env bench_state =
     ''{\"at\":\"2024-07-19T12:00:05\",\"sg\":5120,\"bp1\":1013.0025,\"bt1\":22.50,\"bh1\":45.00,\"bv\":3.70,\"hth\":0}''"
  using scenario_record [OF bench_inputs(2-8) bench_inputs(14) bench_inputs(10-13)]
  by (simp add: bench_inputs(9) bench_timestamp)

text \<open>
  C9. When the card is flagged absent or the daily file does not open, a logged
  observation appends nothing to the card and makes one attempt only; the fault bit
  \<open>SSB_SD\<close> is set when the open fails (and the bits are left as they are when the card is
  absent); the record in \<open>msgbuf\<close> is the one that is assembled when the card works and
  when no logging is asked for, and it is the last line written to the serial console.
\<close>

theorem OBS_Do_persistence_failure:
  assumes "RTC_valid s"
    and "\<not> SD_exists s \<or> \<not> SD_open e (SD_logfile_name (rtc_now e))"
  shows "sd_card (OBS_Do e True s) = sd_card s \<and>
     SystemStatusBits (OBS_Do e True s) =
       (if SD_exists s then SystemStatusBits s OR SSB_SD else SystemStatusBits s) \<and>
     msgbuf (OBS_Do e True s) = obs_record e s \<and>
     msgbuf (OBS_Do e True s) = msgbuf (OBS_Do e False s) \<and>
     msgbuf (OBS_Do e True s) =
       msgbuf (OBS_Do (e\<lparr>SD_open := \<lambda>f. True\<rparr>) True (s\<lparr>SD_exists := True\<rparr>)) \<and>
     sd_card (OBS_Do (e\<lparr>SD_open := \<lambda>f. True\<rparr>) True (s\<lparr>SD_exists := True\<rparr>)) =
       sd_card s @ [(SD_logfile_name (rtc_now e), obs_record e s)] \<and>
     serial_out (OBS_Do e True s) =
       (if SerialConsoleEnabled s
        then serial_out s @ [''OBS_Do()'', iso_timestamp (rtc_now e)] @
             (if SD_exists s then [SD_logfile_name (rtc_now e), ''OBS Open Log Err''] else []) @
             [obs_record e s]
        else serial_out s) \<and>
     now (OBS_Do e True s) = rtc_now e \<and>
     timestamp (OBS_Do e True s) = iso_timestamp (rtc_now e) \<and>
     ds_reading (OBS_Do e True s) = (if ds_found s then ds_value e else ds_reading s)"
proof -
  let ?e = "e\<lparr>SD_open := \<lambda>f. True\<rparr>" and ?s = "s\<lparr>SD_exists := True\<rparr>"
  have v: "RTC_valid ?s" using assms(1) by simp
  have a: "sd_card (OBS_Do e True s) = sd_card s"
    using assms by (auto simp add: OBS_Do_log_card)
  have b: "SystemStatusBits (OBS_Do e True s) =
       (if SD_exists s then SystemStatusBits s OR SSB_SD else SystemStatusBits s)"
    using assms by (auto simp add: OBS_Do_log_bits)
  have c: "msgbuf (OBS_Do e True s) = obs_record e s"
    using assms(1) by (rule msgbuf_OBS_Do)
  have d: "msgbuf (OBS_Do e False s) = obs_record e s"
    using assms(1) by (rule msgbuf_OBS_Do)
  have f: "msgbuf (OBS_Do ?e True ?s) = obs_record e s"
    using msgbuf_OBS_Do [OF v, of ?e True] by simp
  have g: "sd_card (OBS_Do ?e True ?s) =
       sd_card s @ [(SD_logfile_name (rtc_now e), obs_record e s)]"
    using OBS_Do_log_card [OF v, of ?e] by simp
  have h: "serial_out (OBS_Do e True s) =
       (if SerialConsoleEnabled s
        then serial_out s @ [''OBS_Do()'', iso_timestamp (rtc_now e)] @
             (if SD_exists s then [SD_logfile_name (rtc_now e), ''OBS Open Log Err''] else []) @
             [obs_record e s]
        else serial_out s)"
    using assms by (auto simp add: OBS_Do_log_serial)
  have i: "now (OBS_Do e True s) = rtc_now e"
    "timestamp (OBS_Do e True s) = iso_timestamp (rtc_now e)"
    "ds_reading (OBS_Do e True s) = (if ds_found s then ds_value e else ds_reading s)"
    using assms(1)
    by (simp_all add: OBS_Do_log obs_assembled_def)
  show ?thesis
    using a b c d f g h i by (simp only: simp_thms)
qed


theorem OBS_Do_persistence_failure_witness:
  "RTC_valid bench_state \<and> SD_exists bench_state \<and>
   \<not> SD_open sd_fail_env (SD_logfile_name (rtc_now sd_fail_env)) \<and>
   sd_card bench_state = [] \<and> serial_out bench_state = [] \<and>
   sd_card (OBS_Do sd_fail_env True bench_state) = [] \<and>
   SystemStatusBits (OBS_Do sd_fail_env True bench_state) = SSB_SD \<and>
   msgbuf (OBS_Do sd_fail_env True bench_state) =
     ''{\"at\":\"2024-07-19T12:00:05\",\"sg\":5120,\"bp1\":1013.0025,\"bt1\":22.50,\"bh1\":45.00,\"bv\":3.70,\"hth\":0}'' \<and>
   serial_out (OBS_Do sd_fail_env True bench_state) =
     [''OBS_Do()'', ''2024-07-19T12:00:05'', ''/OBS/20240719.log'', ''OBS Open Log Err'',
      ''{\"at\":\"2024-07-19T12:00:05\",\"sg\":5120,\"bp1\":1013.0025,\"bt1\":22.50,\"bh1\":45.00,\"bv\":3.70,\"hth\":0}''] \<and>
   sd_card (OBS_Do bench_env True bench_state) =
     [(''/OBS/20240719.log'',
       ''{\"at\":\"2024-07-19T12:00:05\",\"sg\":5120,\"bp1\":1013.0025,\"bt1\":22.50,\"bh1\":45.00,\"bv\":3.70,\"hth\":0}'')] \<and>
   RTC_valid nosd_state \<and> \<not> SD_exists nosd_state \<and>
   sd_card (OBS_Do bench_env True nosd_state) = [] \<and>
   SystemStatusBits (OBS_Do bench_env True nosd_state) = SSB_PWRON OR SSB_SD"
proof -
  have e: "rtc_now sd_fail_env = rtc_now bench_env"
    "\<not> SD_open sd_fail_env f" "sd_fail_env\<lparr>SD_open := \<lambda>f. True\<rparr> = bench_env"
    "SD_open bench_env f" for f
    by (simp_all add: sd_fail_env_def bench_env_def)
  have r: "obs_record sd_fail_env bench_state = obs_record bench_env bench_state"
    by (simp add: sd_fail_env_def)
  have b: "RTC_valid bench_state" "SD_exists bench_state" "SerialConsoleEnabled bench_state"
    "sd_card bench_state = []" "serial_out bench_state = []"
    "SystemStatusBits bench_state = 0" "bench_state\<lparr>SD_exists := True\<rparr> = bench_state"
    by (simp_all add: bench_state_def boot_state_def)
  have n: "RTC_valid nosd_state" "\<not> SD_exists nosd_state" "sd_card nosd_state = []"
    "SystemStatusBits nosd_state = SSB_PWRON OR SSB_SD"
    by (simp_all add: nosd_state_def bench_state_def boot_state_def)
  note t1 = OBS_Do_persistence_failure [of bench_state sd_fail_env]
  note t2 = OBS_Do_persistence_failure [of nosd_state bench_env]
  have c1: "sd_card (OBS_Do sd_fail_env True bench_state) = []"
    using t1 b e by simp
  have c2: "SystemStatusBits (OBS_Do sd_fail_env True bench_state) = SSB_SD"
    using t1 b e by simp
  have c3: "msgbuf (OBS_Do sd_fail_env True bench_state) =
     ''{\"at\":\"2024-07-19T12:00:05\",\"sg\":5120,\"bp1\":1013.0025,\"bt1\":22.50,\"bh1\":45.00,\"bv\":3.70,\"hth\":0}''"
    using t1 b e(2) by (simp add: r bench_record)
  have c4: "serial_out (OBS_Do sd_fail_env True bench_state) =
     [''OBS_Do()'', ''2024-07-19T12:00:05'', ''/OBS/20240719.log'', ''OBS Open Log Err'',
      ''{\"at\":\"2024-07-19T12:00:05\",\"sg\":5120,\"bp1\":1013.0025,\"bt1\":22.50,\"bh1\":45.00,\"bv\":3.70,\"hth\":0}'']"
    using t1 b e(2) by (simp add: r e(1) bench_record bench_timestamp bench_logfile)
  have c5: "sd_card (OBS_Do bench_env True bench_state) =
     [(''/OBS/20240719.log'',
       ''{\"at\":\"2024-07-19T12:00:05\",\"sg\":5120,\"bp1\":1013.0025,\"bt1\":22.50,\"bh1\":45.00,\"bv\":3.70,\"hth\":0}'')]"
    using t1 b e(2) by (simp add: r e(1) e(3) bench_record bench_logfile)
  have c6: "sd_card (OBS_Do bench_env True nosd_state) = []"
    using t2 n by simp
  have c7: "SystemStatusBits (OBS_Do bench_env True nosd_state) = SSB_PWRON OR SSB_SD"
    using t2 n by simp
  show ?thesis
    using b(1,2,4,5) e(2) n(1,2) c1 c2 c3 c4 c5 c6 c7 by (simp only: simp_thms)
qed

section \<open>The one-wire field\<close>

lemma bench_scratchpad:
  "ds_scratchpad bench_env ms = [0xFF, 0xFF, 0xFF, 0xFF, 0xFF, 0xFF, 0xFF, 0xFF, 0xFF]"
  by (simp add: ds_scratchpad_def bench_env_def upt_rec)

lemma bench_crc: "\<not> ds_crc_ok bench_env ms"
proof -
  have "dallas_crc8 [0xFF, 0xFF, 0xFF, 0xFF, 0xFF, 0xFF, 0xFF, 0xFF] = 0xC9"
    by code_simp
  moreover have "crc8 bench_env = dallas_crc8"
    by (simp add: bench_env_def)
  ultimately show ?thesis
    by (simp add: ds_crc_ok_def bench_scratchpad)
qed

lemma bench_ds_raw:
  "ds_raw [0xFF, 0xFF, 0xFF, 0xFF, 0xFF, 0xFF, 0xFF, 0xFF, 0xFF] = 65535"
  by code_simp

lemma bench_ds_temp: "ds_temp (ds_scratchpad bench_env ms) = Fin (65535 / 16)"
  by (simp add: ds_temp_def bench_scratchpad bench_ds_raw float_eval)

lemma bench_ds_value: "ds_value bench_env = Fin 0"
  by (simp add: ds_value_def bench_crc)

lemma probe_scratchpad:
  "ds_scratchpad probe_env ms = [0x91, 0x01, 0x4B, 0x46, 0x7F, 0xFF, 0x0F, 0x10, 0x25]"
  by (simp add: ds_scratchpad_def probe_env_def upt_rec)

lemma probe_crc: "ds_crc_ok probe_env ms"
proof -
  have "dallas_crc8 [0x91, 0x01, 0x4B, 0x46, 0x7F, 0xFF, 0x0F, 0x10] = 0x25"
    by code_simp
  moreover have "crc8 probe_env = dallas_crc8"
    by (simp add: probe_env_def bench_env_def)
  ultimately show ?thesis
    by (simp add: ds_crc_ok_def probe_scratchpad)
qed

lemma probe_ds_raw:
  "ds_raw [0x91, 0x01, 0x4B, 0x46, 0x7F, 0xFF, 0x0F, 0x10, 0x25] = 401"
  by code_simp

lemma probe_ds_temp: "ds_temp (ds_scratchpad probe_env ms) = Fin (401 / 16)"
  by (simp add: ds_temp_def probe_scratchpad probe_ds_raw float_eval)

lemma probe_ds_value: "ds_value probe_env = Fin (401 / 16)"
  by (simp add: ds_value_def probe_crc probe_ds_temp qc_gate_cases in_envelope_def
      QC_MIN_T_val QC_MAX_T_val)

lemma temp_json_probe: "temp_json ''dt1'' (Fin (401 / 16)) = ''\"dt1\":25.0006,''"
  by (simp add: temp_json_def float_eval fmt_eval)


lemma probe_inputs:
  "RTC_valid probe_state" "BMX_1_exists probe_state" "\<not> BMX_2_exists probe_state"
  "\<not> MCP_1_exists probe_state" "ds_found probe_state"
  "SystemStatusBits probe_state = 0"
  "BMX_1_chip_id probe_state = BME280_BMP390_CHIP_ID"
  "BMX_1_type probe_state = BMX_TYPE_BME280"
  "cf_ds_type probe_state = 0"
  "readPressure probe_env bme1 = Fin 101325" "readTemperature probe_env bme1 = Fin (45 / 2)"
  "readHumidity probe_env bme1 = Fin 45" "analogRead_VBAT probe_env = 575"
  "s_gauge_median_M0 (analogRead_SGAUGE probe_env) = 512"
  "rtc_now probe_env = rtc_now bench_env"
  by (simp_all add: probe_state_def probe_env_def bench_state_def boot_state_def bench_env_def
      s_gauge_median_M0_const)

lemma ds_value_gated:
  "in_envelope QC_MIN_T QC_MAX_T (ds_value e) \<or> ds_value e = Fin (f32 QC_ERR_T)"
  by (simp add: ds_value_def qc_gate_cases in_envelope_def QC_MIN_T_val QC_MAX_T_val)

text \<open>
  C6, as the code has it. The record of \<open>OBS_Do\<close> holds, in this order, \<open>sg\<close> (the scaled
  median, as it is), for each barometric slot present the three readings after the
  pressure, temperature and humidity gates, \<open>mt1\<close> after the temperature gate, \<open>dt1\<close>, and
  \<open>bv\<close> and \<open>hth\<close> (the battery voltage and the status bits, as they are). \<open>dt1\<close> is what
  \<open>getDSTemp\<close> leaves in \<open>ds_reading\<close>: the reading after the temperature gate when the
  checksum of the first read, or else of the retry, is good, and \<open>0.0\<close> when both
  checksums fail. A value after a gate is inside the envelope of its kind or is the
  sentinel of the kind, and so is \<open>dt1\<close> in every case.
\<close>

theorem OBS_Do_record_gates:
  assumes "RTC_valid s"
  shows "msgbuf (OBS_Do e log_obs s) =
       head_json (iso_timestamp (rtc_now e))
         (sint (s_gauge_median (cf_ds_type s) (analogRead_SGAUGE e))) @
       (if BMX_1_exists s
        then bmx_json ''1''
               (bmx_gate (bmx_read e bmp1 bme1 bm31 (BMX_1_chip_id s) (BMX_1_type s)))
        else []) @
       (if BMX_2_exists s
        then bmx_json ''2''
               (bmx_gate (bmx_read e bmp2 bme2 bm32 (BMX_2_chip_id s) (BMX_2_type s)))
        else []) @
       (if MCP_1_exists s
        then temp_json ''mt1'' (qc_gate QC_MIN_T QC_MAX_T QC_ERR_T (mcp1_readTempC e))
        else []) @
       (if ds_found s then temp_json ''dt1'' (ds_reading (OBS_Do e log_obs s)) else []) @
       tail_json (vbat_get e) (SystemStatusBits s) \<and>
     bmx_gate (p, t, h) =
       (qc_gate QC_MIN_P QC_MAX_P QC_ERR_P p, qc_gate QC_MIN_T QC_MAX_T QC_ERR_T t,
        qc_gate QC_MIN_RH QC_MAX_RH QC_ERR_RH h) \<and>
     ds_reading (OBS_Do e log_obs s) =
       (if \<not> ds_found s then ds_reading s
        else if crc8 e (take 8 (ds_scratchpad e 250)) = ds_scratchpad e 250 ! 8
        then qc_gate QC_MIN_T QC_MAX_T QC_ERR_T (ds_temp (ds_scratchpad e 250))
        else if crc8 e (take 8 (ds_scratchpad e 750)) = ds_scratchpad e 750 ! 8
        then qc_gate QC_MIN_T QC_MAX_T QC_ERR_T (ds_temp (ds_scratchpad e 750))
        else Fin 0) \<and>
     (in_envelope lo hi (qc_gate lo hi err v) \<or> qc_gate lo hi err v = Fin (f32 err)) \<and>
     (if ds_found s
      then in_envelope QC_MIN_T QC_MAX_T (ds_reading (OBS_Do e log_obs s)) \<or>
           ds_reading (OBS_Do e log_obs s) = Fin (f32 QC_ERR_T)
      else True)"
proof -
  have d: "ds_reading (OBS_Do e log_obs s) = (if ds_found s then ds_value e else ds_reading s)"
    using assms
    by (cases log_obs) (simp_all add: OBS_Do_log OBS_Do_nolog obs_assembled_def)
  have a: "msgbuf (OBS_Do e log_obs s) =
       head_json (iso_timestamp (rtc_now e))
         (sint (s_gauge_median (cf_ds_type s) (analogRead_SGAUGE e))) @
       (if BMX_1_exists s
        then bmx_json ''1''
               (bmx_gate (bmx_read e bmp1 bme1 bm31 (BMX_1_chip_id s) (BMX_1_type s)))
        else []) @
       (if BMX_2_exists s
        then bmx_json ''2''
               (bmx_gate (bmx_read e bmp2 bme2 bm32 (BMX_2_chip_id s) (BMX_2_type s)))
        else []) @
       (if MCP_1_exists s
        then temp_json ''mt1'' (qc_gate QC_MIN_T QC_MAX_T QC_ERR_T (mcp1_readTempC e))
        else []) @
       (if ds_found s then temp_json ''dt1'' (ds_reading (OBS_Do e log_obs s)) else []) @
       tail_json (vbat_get e) (SystemStatusBits s)"
    unfolding msgbuf_OBS_Do [OF assms] d by (simp add: obs_record_def)
  have b: "bmx_gate (p, t, h) =
       (qc_gate QC_MIN_P QC_MAX_P QC_ERR_P p, qc_gate QC_MIN_T QC_MAX_T QC_ERR_T t,
        qc_gate QC_MIN_RH QC_MAX_RH QC_ERR_RH h)"
    by (simp add: bmx_gate_def)
  have c: "ds_reading (OBS_Do e log_obs s) =
       (if \<not> ds_found s then ds_reading s
        else if crc8 e (take 8 (ds_scratchpad e 250)) = ds_scratchpad e 250 ! 8
        then qc_gate QC_MIN_T QC_MAX_T QC_ERR_T (ds_temp (ds_scratchpad e 250))
        else if crc8 e (take 8 (ds_scratchpad e 750)) = ds_scratchpad e 750 ! 8
        then qc_gate QC_MIN_T QC_MAX_T QC_ERR_T (ds_temp (ds_scratchpad e 750))
        else Fin 0)"
    unfolding d by (simp add: ds_value_def ds_crc_ok_def)
  have g: "in_envelope lo hi (qc_gate lo hi err v) \<or> qc_gate lo hi err v = Fin (f32 err)"
    by (simp add: qc_gate_cases)
  have f: "if ds_found s
      then in_envelope QC_MIN_T QC_MAX_T (ds_reading (OBS_Do e log_obs s)) \<or>
           ds_reading (OBS_Do e log_obs s) = Fin (f32 QC_ERR_T)
      else True"
    unfolding d using ds_value_gated [of e] by simp
  show ?thesis
    using a b c g f by (simp only: simp_thms)
qed


theorem OBS_Do_record_gates_witness:
  "RTC_valid probe_state \<and> ds_found probe_state \<and>
   crc8 probe_env (take 8 (ds_scratchpad probe_env 250)) = ds_scratchpad probe_env 250 ! 8 \<and>
   ds_temp (ds_scratchpad probe_env 250) = Fin (401 / 16) \<and>
   in_envelope QC_MIN_T QC_MAX_T (Fin (401 / 16)) \<and>
   ds_reading (OBS_Do probe_env True probe_state) = Fin (401 / 16) \<and>
   msgbuf (OBS_Do probe_env True probe_state) =
     ''{\"at\":\"2024-07-19T12:00:05\",\"sg\":5120,\"bp1\":1013.0025,\"bt1\":22.50,\"bh1\":45.00,\"dt1\":25.0006,\"bv\":3.70,\"hth\":0}''"
proof -
  note t = OBS_Do_record_gates [OF probe_inputs(1), of probe_env True]
  have k: "crc8 probe_env (take 8 (ds_scratchpad probe_env 250)) =
      ds_scratchpad probe_env 250 ! 8"
    using probe_crc [of 250] by (simp add: ds_crc_ok_def)
  have v: "in_envelope QC_MIN_T QC_MAX_T (Fin (401 / 16))"
    by (simp add: in_envelope_def QC_MIN_T_val QC_MAX_T_val)
  have g: "qc_gate QC_MIN_T QC_MAX_T QC_ERR_T (Fin (401 / 16)) = Fin (401 / 16)"
    using v by (simp add: qc_gate_cases)
  have d: "ds_reading (OBS_Do probe_env True probe_state) = Fin (401 / 16)"
    using t k by (simp add: probe_inputs(5) probe_ds_temp g)
  have "msgbuf (OBS_Do probe_env True probe_state) = obs_record probe_env probe_state"
    using t unfolding d by (simp add: obs_record_def probe_inputs(5) probe_ds_value)
  then have m: "msgbuf (OBS_Do probe_env True probe_state) =
     ''{\"at\":\"2024-07-19T12:00:05\",\"sg\":5120,\"bp1\":1013.0025,\"bt1\":22.50,\"bh1\":45.00,\"dt1\":25.0006,\"bv\":3.70,\"hth\":0}''"
    using scenario_record_probe [OF probe_inputs(2-4) probe_inputs(6-8) probe_inputs(14)
        probe_inputs(10-13)]
    by (simp add: probe_inputs(5) probe_inputs(9) probe_inputs(15) bench_timestamp
        probe_ds_value temp_json_probe)
  show ?thesis
    using probe_inputs(1) probe_inputs(5) k probe_ds_temp [of 250] v d m
    by (simp only: simp_thms)
qed

text \<open>
  C6 as stated fails for \<open>dt1\<close>: on a one-wire bus that floats high both reads fail the
  checksum and the record has \<open>"dt1":0.0000\<close>. The bytes read stand for 4095.9375
  degrees, outside the envelope, and the gate would have replaced them by the sentinel;
  the \<open>0.0\<close> in the record is neither a reading that went through the gate nor the
  sentinel.
\<close>

theorem OBS_Do_dt1_ungated_counterexample:
  "RTC_valid probe_state \<and> ds_found probe_state \<and>
   crc8 bench_env (take 8 (ds_scratchpad bench_env 250)) \<noteq> ds_scratchpad bench_env 250 ! 8 \<and>
   crc8 bench_env (take 8 (ds_scratchpad bench_env 750)) \<noteq> ds_scratchpad bench_env 750 ! 8 \<and>
   ds_temp (ds_scratchpad bench_env 750) = Fin (65535 / 16) \<and>
   \<not> in_envelope QC_MIN_T QC_MAX_T (ds_temp (ds_scratchpad bench_env 750)) \<and>
   qc_gate QC_MIN_T QC_MAX_T QC_ERR_T (ds_temp (ds_scratchpad bench_env 750)) =
     Fin (f32 QC_ERR_T) \<and>
   ds_reading (OBS_Do bench_env True probe_state) = Fin 0 \<and>
   ds_reading (OBS_Do bench_env True probe_state) \<noteq> Fin (f32 QC_ERR_T) \<and>
   msgbuf (OBS_Do bench_env True probe_state) =
     ''{\"at\":\"2024-07-19T12:00:05\",\"sg\":5120,\"bp1\":1013.0025,\"bt1\":22.50,\"bh1\":45.00,\"dt1\":0.0000,\"bv\":3.70,\"hth\":0}''"
proof -
  have k: "crc8 bench_env (take 8 (ds_scratchpad bench_env ms)) \<noteq>
      ds_scratchpad bench_env ms ! 8" for ms
    using bench_crc [of ms] by (simp add: ds_crc_ok_def)
  have v: "\<not> in_envelope QC_MIN_T QC_MAX_T (ds_temp (ds_scratchpad bench_env 750))"
    by (simp add: bench_ds_temp in_envelope_def QC_MAX_T_val)
  have g: "qc_gate QC_MIN_T QC_MAX_T QC_ERR_T (ds_temp (ds_scratchpad bench_env 750)) =
     Fin (f32 QC_ERR_T)"
    using v by (simp add: qc_gate_cases)
  have d: "ds_reading (OBS_Do bench_env True probe_state) = Fin 0"
    using probe_inputs(1)
    by (simp add: OBS_Do_log obs_assembled_def probe_inputs(5) bench_ds_value)
  have n: "ds_reading (OBS_Do bench_env True probe_state) \<noteq> Fin (f32 QC_ERR_T)"
    unfolding d f32_QC_ERR_T by simp
  have i: "readPressure bench_env bme1 = Fin 101325"
    "readTemperature bench_env bme1 = Fin (45 / 2)"
    "readHumidity bench_env bme1 = Fin 45" "analogRead_VBAT bench_env = 575"
    "s_gauge_median_M0 (analogRead_SGAUGE bench_env) = 512"
    by (rule bench_inputs)+
  have m: "msgbuf (OBS_Do bench_env True probe_state) =
     ''{\"at\":\"2024-07-19T12:00:05\",\"sg\":5120,\"bp1\":1013.0025,\"bt1\":22.50,\"bh1\":45.00,\"dt1\":0.0000,\"bv\":3.70,\"hth\":0}''"
    using scenario_record_probe [OF probe_inputs(2-4) probe_inputs(6-8) i(5) i(1-4)]
    by (simp add: msgbuf_OBS_Do probe_inputs(1) probe_inputs(5) probe_inputs(9)
        bench_timestamp bench_ds_value temp_json_zero)
  show ?thesis
    using probe_inputs(1) probe_inputs(5) k [of 250] k [of 750] bench_ds_temp [of 750] v g d n m
    by (simp only: simp_thms)
qed

end
